theory Spec2Isabelle
  imports Main
begin

section \<open>Python values, dictionaries and exceptions\<close>

text \<open>
  The modules work on dynamically typed dictionaries: the parameter dictionary handed over
  by the automation tool and the objects returned by the provider client. The attributes
  the modules read, compare and stringify are \<^verbatim>\<open>None\<close>, booleans and strings, so
  a value is one of these three. A dictionary is a partial map from keys to values; a key
  that is absent is distinct from a key bound to \<^verbatim>\<open>None\<close>.
\<close>

datatype pyval = PNone | PBool bool | PStr string

type_synonym pydict = "string \<rightharpoonup> pyval"

text \<open>Python's \<^verbatim>\<open>str(v)\<close>, which is also what \<^verbatim>\<open>"{}".format(v)\<close> yields.\<close>

fun py_str :: "pyval \<Rightarrow> string" where
  "py_str PNone = ''None''"
| "py_str (PBool True) = ''True''"
| "py_str (PBool False) = ''False''"
| "py_str (PStr s) = s"

text \<open>\<^verbatim>\<open>d.get(k)\<close> and \<^verbatim>\<open>d.get(k, default)\<close>.\<close>

definition py_get :: "pydict \<Rightarrow> string \<Rightarrow> pyval" where
  "py_get d k = (case d k of None \<Rightarrow> PNone | Some v \<Rightarrow> v)"

definition py_get_default :: "pydict \<Rightarrow> string \<Rightarrow> pyval \<Rightarrow> pyval" where
  "py_get_default d k dflt = (case d k of None \<Rightarrow> dflt | Some v \<Rightarrow> v)"

text \<open>The substring test \<^verbatim>\<open>sub in s\<close> on strings.\<close>

fun starts_with :: "string \<Rightarrow> string \<Rightarrow> bool" where
  "starts_with [] s = True"
| "starts_with (c # cs) [] = False"
| "starts_with (c # cs) (d # ds) = (c = d \<and> starts_with cs ds)"

fun py_in :: "string \<Rightarrow> string \<Rightarrow> bool" where
  "py_in sub [] = (sub = [])"
| "py_in sub (c # cs) = (starts_with sub (c # cs) \<or> py_in sub cs)"

text \<open>
  The two exception classes of the provider SDK that the modules name. They are unrelated
  classes: a handler for one does not catch the other. A \<open>ClientError\<close> carries the JSON
  dump of its \<^verbatim>\<open>response\<close> dictionary and its message text; a \<open>BotoCoreError\<close>
  carries its message text.
\<close>

datatype exn = ClientError string string | BotoCoreError string

fun exn_text :: "exn \<Rightarrow> string" where
  "exn_text (ClientError response message) = message"
| "exn_text (BotoCoreError message) = message"

text \<open>A provider call either returns or raises.\<close>

datatype 'a reply = Return 'a | Raise exn

text \<open>
  How an invocation can end other than through \<^verbatim>\<open>exit_json\<close>: \<^verbatim>\<open>fail_json\<close> with
  its message (which ends the process), an SDK exception that no handler catches, or a
  Python \<^verbatim>\<open>KeyError\<close> / \<^verbatim>\<open>TypeError\<close> raised by the module's own code.
\<close>

datatype error = FailJson string | Uncaught exn | KeyError string | TypeError

text \<open>The arguments of \<^verbatim>\<open>exit_json\<close>: the changed flag and the resulting object.\<close>

record 'o result =
  changed :: bool
  obj :: "'o option"

text \<open>A patch operation \<^verbatim>\<open>{'op': ..., 'path': ..., 'value': ...}\<close>.\<close>

record patch =
  patch_op :: string
  patch_path :: string
  patch_value :: pyval

section \<open>The stage module (apigw\_stage.py)\<close>

text \<open>
  The observed stage is the dictionary returned by \<^verbatim>\<open>get_stage\<close>: its scalar attributes
  and, under the key \<^verbatim>\<open>methodSettings\<close> (which may be absent), a dictionary from method
  key to a dictionary of settings.
\<close>

record stage =
  attrs :: pydict
  methodSettings :: "(string \<rightharpoonup> pydict) option"

text \<open>
  The parameter dictionary of the stage module: the scalar parameters by name, and the
  list of dictionaries under \<^verbatim>\<open>method_settings\<close> (\<open>None\<close> when the key is absent).
\<close>

record stage_params =
  scalars :: pydict
  method_settings :: "pydict list option"

record patch_args =
  restApiId :: pyval
  stageName :: pyval
  patchOperations :: "patch list"

definition create_patch :: "string \<Rightarrow> pyval \<Rightarrow> patch" where
  "create_patch path v =
     \<lparr>patch_op = ''replace'', patch_path = ''/'' @ path, patch_value = PStr (py_str v)\<rparr>"

definition arg_map :: "(string \<times> string) list" where
  "arg_map = [(''description'', ''description''),
              (''cache_cluster_enabled'', ''cacheClusterEnabled''),
              (''cache_cluster_size'', ''cacheClusterSize'')]"

text \<open>One round of the first loop of \<^verbatim>\<open>build_patch_args\<close>: the patches it appends.\<close>

definition field_patch :: "pydict \<Rightarrow> pydict \<Rightarrow> string \<times> string \<Rightarrow> patch list" where
  "field_patch stg params am =
     (case am of (ans_param, boto_param) \<Rightarrow>
        (case params ans_param of
           None \<Rightarrow> []
         | Some v \<Rightarrow>
             if v = PNone then []
             else (case stg boto_param of
                     None \<Rightarrow> [create_patch boto_param v]
                   | Some w \<Rightarrow>
                       if py_str v = py_str w then [] else [create_patch boto_param v])))"

text \<open>\<^verbatim>\<open>re.sub('/', '~1', s)\<close>: every slash becomes the two characters \<^verbatim>\<open>~1\<close>.\<close>

definition escape_slashes :: "string \<Rightarrow> string" where
  "escape_slashes s = concat (map (\<lambda>c. if c = CHR ''/'' then ''~1'' else [c]) s)"

text \<open>
  \<^verbatim>\<open>"{0}/{1}".format(re.sub('/', '~1', m['method_name']), m['method_verb'])\<close>: a missing
  key raises \<open>KeyError\<close>, a method name that is not a string makes \<^verbatim>\<open>re.sub\<close> raise
  \<open>TypeError\<close>.
\<close>

definition method_key :: "pydict \<Rightarrow> error + string" where
  "method_key m =
     (case m ''method_name'' of
        None \<Rightarrow> Inl (KeyError ''method_name'')
      | Some (PStr n) \<Rightarrow>
          (case m ''method_verb'' of
             None \<Rightarrow> Inl (KeyError ''method_verb'')
           | Some verb \<Rightarrow> Inr (escape_slashes n @ ''/'' @ py_str verb))
      | Some _ \<Rightarrow> Inl TypeError)"

text \<open>One round of the second loop: the patches appended for one desired entry.\<close>

definition method_patch :: "(string \<rightharpoonup> pydict) \<Rightarrow> pydict \<Rightarrow> error + patch list" where
  "method_patch stg_methods m =
     (case method_key m of
        Inl e \<Rightarrow> Inl e
      | Inr key \<Rightarrow>
          (let caching = py_get_default m ''caching_enabled'' (PBool False) in
           case stg_methods key of
             None \<Rightarrow> Inr [create_patch (key @ ''/caching/enabled'') caching]
           | Some setting \<Rightarrow>
               (case setting ''cachingEnabled'' of
                  None \<Rightarrow> Inl (KeyError ''cachingEnabled'')
                | Some c \<Rightarrow>
                    if py_str c \<noteq> py_str caching
                    then Inr [create_patch (key @ ''/caching/enabled'') caching]
                    else Inr [])))"

fun method_loop :: "(string \<rightharpoonup> pydict) \<Rightarrow> pydict list \<Rightarrow> patch list \<Rightarrow> error + patch list" where
  "method_loop stg_methods [] patches = Inr patches"
| "method_loop stg_methods (m # ms) patches =
     (case method_patch stg_methods m of
        Inl e \<Rightarrow> Inl e
      | Inr ps \<Rightarrow> method_loop stg_methods ms (patches @ ps))"

definition build_patch_args :: "stage option \<Rightarrow> stage_params \<Rightarrow> error + patch_args option" where
  "build_patch_args stg params =
     (let stg' = (case stg of None \<Rightarrow> \<lparr>attrs = Map.empty, methodSettings = None\<rparr> | Some s \<Rightarrow> s);
          stg_methods = (case methodSettings stg' of None \<Rightarrow> Map.empty | Some ms \<Rightarrow> ms);
          patches = concat (map (field_patch (attrs stg') (scalars params)) arg_map)
      in case method_loop stg_methods
                (case method_settings params of None \<Rightarrow> [] | Some ms \<Rightarrow> ms) patches of
           Inl e \<Rightarrow> Inl e
         | Inr patches' \<Rightarrow>
             if patches' \<noteq> [] then
               (case scalars params ''rest_api_id'' of
                  None \<Rightarrow> Inl (KeyError ''rest_api_id'')
                | Some rid \<Rightarrow>
                    (case scalars params ''name'' of
                       None \<Rightarrow> Inl (KeyError ''name'')
                     | Some nm \<Rightarrow>
                         Inr (Some \<lparr>restApiId = rid, stageName = nm,
                                    patchOperations = patches'\<rparr>)))
             else Inr None)"

text \<open>
  The provider client, as far as the stage module uses it. Each operation's reply may
  depend on the calls issued before it, so any deterministic provider is covered. The
  module's run records every call it issues, in order.
\<close>

datatype stage_call =
    GetStage pyval pyval
  | DeleteStage pyval pyval
  | UpdateStage patch_args

record stage_client =
  client_get_stage :: "stage_call list \<Rightarrow> pyval \<Rightarrow> pyval \<Rightarrow> stage reply"
  client_delete_stage :: "stage_call list \<Rightarrow> pyval \<Rightarrow> pyval \<Rightarrow> unit reply"
  client_update_stage :: "stage_call list \<Rightarrow> patch_args \<Rightarrow> unit reply"

definition find_stage ::
  "stage_client \<Rightarrow> stage_params \<Rightarrow> stage_call list \<Rightarrow> (error + stage option) \<times> stage_call list" where
  "find_stage cl params tr =
     (let rid = py_get (scalars params) ''rest_api_id'';
          nm = py_get (scalars params) ''name'';
          tr' = tr @ [GetStage rid nm]
      in case client_get_stage cl tr rid nm of
           Return s \<Rightarrow> (Inr (Some s), tr')
         | Raise (ClientError response message) \<Rightarrow>
             if py_in ''NotFoundException'' response then (Inr None, tr')
             else (Inl (FailJson (''Error while finding stage via boto3: '' @ message)), tr')
         | Raise (BotoCoreError message) \<Rightarrow>
             (Inl (FailJson (''Error while finding stage via boto3: '' @ message)), tr'))"

definition delete_stage ::
  "stage_client \<Rightarrow> stage_params \<Rightarrow> bool \<Rightarrow> stage_call list \<Rightarrow> (error + bool) \<times> stage_call list" where
  "delete_stage cl params check_mode tr =
     (if \<not> check_mode then
        (let rid = py_get (scalars params) ''rest_api_id'';
             nm = py_get (scalars params) ''name'';
             tr' = tr @ [DeleteStage rid nm]
         in case client_delete_stage cl tr rid nm of
              Return u \<Rightarrow> (Inr True, tr')
            | Raise (BotoCoreError message) \<Rightarrow>
                (Inl (FailJson (''Error while deleting stage via boto3: '' @ message)), tr')
            | Raise (ClientError response message) \<Rightarrow>
                (Inl (Uncaught (ClientError response message)), tr'))
      else (Inr False, tr))"

text \<open>
  The handler of \<^verbatim>\<open>_update_stage\<close> wraps both the update call and the fetch after it,
  and catches \<open>BotoCoreError\<close> only.
\<close>

definition stage_update_handler :: "exn \<Rightarrow> error" where
  "stage_update_handler e =
     (case e of
        BotoCoreError message \<Rightarrow> FailJson (''Error while updating stage via boto3: '' @ message)
      | ClientError response message \<Rightarrow> Uncaught (ClientError response message))"

definition update_stage ::
  "stage_client \<Rightarrow> stage option \<Rightarrow> stage_params \<Rightarrow> bool \<Rightarrow> stage_call list
     \<Rightarrow> (error + bool \<times> stage option) \<times> stage_call list" where
  "update_stage cl stg params check_mode tr =
     (case build_patch_args stg params of
        Inl e \<Rightarrow> (Inl e, tr)
      | Inr None \<Rightarrow> (Inr (False, None), tr)
      | Inr (Some args) \<Rightarrow>
          if \<not> check_mode then
            (let tr1 = tr @ [UpdateStage args] in
             case client_update_stage cl tr args of
               Raise e \<Rightarrow> (Inl (stage_update_handler e), tr1)
             | Return u \<Rightarrow>
                 (let rid = py_get (scalars params) ''rest_api_id'';
                      nm = py_get (scalars params) ''name'';
                      tr2 = tr1 @ [GetStage rid nm]
                  in case client_get_stage cl tr1 rid nm of
                       Raise e \<Rightarrow> (Inl (stage_update_handler e), tr2)
                     | Return s \<Rightarrow> (Inr (True, Some s), tr2)))
          else (Inr (True, None), tr))"

definition stage_process_request ::
  "stage_client \<Rightarrow> stage_params \<Rightarrow> bool \<Rightarrow> (error + stage result) \<times> stage_call list" where
  "stage_process_request cl params check_mode =
     (case find_stage cl params [] of
        (Inl e, tr) \<Rightarrow> (Inl e, tr)
      | (Inr stg, tr) \<Rightarrow>
          if stg \<noteq> None \<and> py_get_default (scalars params) ''state'' (PStr ''present'') = PStr ''absent''
          then (case delete_stage cl params check_mode tr of
                  (Inl e, tr') \<Rightarrow> (Inl e, tr')
                | (Inr c, tr') \<Rightarrow> (Inr \<lparr>changed = c, obj = None\<rparr>, tr'))
          else if py_get_default (scalars params) ''state'' (PStr ''present'') = PStr ''present''
          then (case update_stage cl stg params check_mode tr of
                  (Inl e, tr') \<Rightarrow> (Inl e, tr')
                | (Inr (c, r), tr') \<Rightarrow> (Inr \<lparr>changed = c, obj = r\<rparr>, tr'))
          else (Inr \<lparr>changed = False, obj = None\<rparr>, tr))"

section \<open>The API key module (apigw\_api\_key.py)\<close>

text \<open>
  The parameter dictionary and the observed key (\<^verbatim>\<open>self.me\<close>) are plain dictionaries.
  Keyword arguments of the create call are kept as an association list, in the order in
  which the module adds them.
\<close>

datatype api_key_call =
    GetApiKeys pyval
  | DeleteApiKey pyval
  | CreateApiKey "(string \<times> pyval) list"
  | UpdateApiKey pyval "patch list"

record api_key_client =
  client_get_api_keys :: "api_key_call list \<Rightarrow> pyval \<Rightarrow> pydict list option reply"
  client_delete_api_key :: "api_key_call list \<Rightarrow> pyval \<Rightarrow> unit reply"
  client_create_api_key :: "api_key_call list \<Rightarrow> (string \<times> pyval) list \<Rightarrow> pydict reply"
  client_update_api_key :: "api_key_call list \<Rightarrow> pyval \<Rightarrow> patch list \<Rightarrow> unit reply"

text \<open>
  The loop of \<^verbatim>\<open>_retrieve_api_key\<close> over the listed items: the last item whose name equals
  the wanted name wins; an item without a name raises \<open>KeyError\<close>.
\<close>

fun match_items :: "pyval \<Rightarrow> pydict list \<Rightarrow> pydict option \<Rightarrow> error + pydict option" where
  "match_items nm [] resp = Inr resp"
| "match_items nm (item # items) resp =
     (case item ''name'' of
        None \<Rightarrow> Inl (KeyError ''name'')
      | Some n \<Rightarrow> match_items nm items (if n = nm then Some item else resp))"

definition retrieve_api_key ::
  "api_key_client \<Rightarrow> pydict \<Rightarrow> api_key_call list \<Rightarrow> (error + pydict option) \<times> api_key_call list" where
  "retrieve_api_key cl params tr =
     (case params ''name'' of
        None \<Rightarrow> (Inl (KeyError ''name''), tr)
      | Some nm \<Rightarrow>
          (let tr' = tr @ [GetApiKeys nm] in
           case client_get_api_keys cl tr nm of
             Return items \<Rightarrow>
               (match_items nm (case items of None \<Rightarrow> [] | Some xs \<Rightarrow> xs) None, tr')
           | Raise (BotoCoreError message) \<Rightarrow>
               (Inl (FailJson (''Error when getting api_keys from boto3: '' @ message)), tr')
           | Raise (ClientError response message) \<Rightarrow>
               (Inl (Uncaught (ClientError response message)), tr')))"

definition delete_api_key ::
  "api_key_client \<Rightarrow> pydict \<Rightarrow> bool \<Rightarrow> api_key_call list \<Rightarrow> (error + bool) \<times> api_key_call list" where
  "delete_api_key cl me check_mode tr =
     (if \<not> check_mode then
        (case me ''id'' of
           None \<Rightarrow> (Inl (KeyError ''id''), tr)
         | Some i \<Rightarrow>
             (let tr' = tr @ [DeleteApiKey i] in
              case client_delete_api_key cl tr i of
                Return u \<Rightarrow> (Inr True, tr')
              | Raise (BotoCoreError message) \<Rightarrow>
                  (Inl (FailJson (''Error when deleting api_key via boto3: '' @ message)), tr')
              | Raise (ClientError response message) \<Rightarrow>
                  (Inl (Uncaught (ClientError response message)), tr')))
      else (Inr True, tr))"

text \<open>
  One round of the loop over \<^verbatim>\<open>['description', 'value']\<close> in \<^verbatim>\<open>_create_api_key\<close>:
  the field is added when \<^verbatim>\<open>params.get(opt_field, None) not in [None, '']\<close>.
\<close>

definition opt_field_args :: "pydict \<Rightarrow> string \<Rightarrow> (string \<times> pyval) list" where
  "opt_field_args params opt_field =
     (if py_get params opt_field \<noteq> PNone \<and> py_get params opt_field \<noteq> PStr ''''
      then [(opt_field, py_get params opt_field)] else [])"

definition create_api_key_args :: "pydict \<Rightarrow> pyval \<Rightarrow> (string \<times> pyval) list" where
  "create_api_key_args params nm =
     [(''name'', nm),
      (''enabled'', py_get_default params ''enabled'' (PBool False)),
      (''generateDistinctId'', py_get_default params ''generate_distinct_id'' (PBool False))]
     @ concat (map (opt_field_args params) [''description'', ''value''])"

definition create_api_key ::
  "api_key_client \<Rightarrow> pydict \<Rightarrow> bool \<Rightarrow> api_key_call list
     \<Rightarrow> (error + bool \<times> pydict option) \<times> api_key_call list" where
  "create_api_key cl params check_mode tr =
     (if \<not> check_mode then
        (case params ''name'' of
           None \<Rightarrow> (Inl (KeyError ''name''), tr)
         | Some nm \<Rightarrow>
             (let args = create_api_key_args params nm;
                  tr' = tr @ [CreateApiKey args]
              in case client_create_api_key cl tr args of
                   Return k \<Rightarrow> (Inr (True, Some k), tr')
                 | Raise (BotoCoreError message) \<Rightarrow>
                     (Inl (FailJson (''Error when creating api_key via boto3: '' @ message)), tr')
                 | Raise (ClientError response message) \<Rightarrow>
                     (Inl (Uncaught (ClientError response message)), tr')))
      else (Inr (True, None), tr))"

text \<open>One round of the loop over \<^verbatim>\<open>['enabled', 'description']\<close> in \<^verbatim>\<open>_create_patches\<close>.\<close>

definition api_key_patch :: "pydict \<Rightarrow> pydict \<Rightarrow> string \<Rightarrow> patch list" where
  "api_key_patch params me param =
     (let ans_value = py_get params param in
      if ans_value \<noteq> PNone \<and>
         (case me param of None \<Rightarrow> True | Some w \<Rightarrow> py_str ans_value \<noteq> py_str w)
      then (if param = ''description'' \<and> ans_value = PStr '''' \<and> me param = None then []
            else [\<lparr>patch_op = ''replace'', patch_path = ''/'' @ param,
                   patch_value = PStr (py_str ans_value)\<rparr>])
      else [])"

definition create_patches :: "pydict \<Rightarrow> pydict \<Rightarrow> patch list" where
  "create_patches params me = concat (map (api_key_patch params me) [''enabled'', ''description''])"

definition update_api_key ::
  "api_key_client \<Rightarrow> pydict \<Rightarrow> pydict \<Rightarrow> bool \<Rightarrow> api_key_call list
     \<Rightarrow> (error + bool \<times> pydict option) \<times> api_key_call list" where
  "update_api_key cl params me check_mode tr =
     (let patches = create_patches params me in
      if patches \<noteq> [] then
        (if \<not> check_mode then
           (case me ''id'' of
              None \<Rightarrow> (Inl (KeyError ''id''), tr)
            | Some i \<Rightarrow>
                (let tr1 = tr @ [UpdateApiKey i patches] in
                 case client_update_api_key cl tr i patches of
                   Return u \<Rightarrow>
                     (case retrieve_api_key cl params tr1 of
                        (Inl e, tr2) \<Rightarrow> (Inl e, tr2)
                      | (Inr api_key, tr2) \<Rightarrow> (Inr (True, api_key), tr2))
                 | Raise (BotoCoreError message) \<Rightarrow>
                     (Inl (FailJson (''Error when updating api_key via boto3: '' @ message)), tr1)
                 | Raise (ClientError response message) \<Rightarrow>
                     (Inl (Uncaught (ClientError response message)), tr1)))
         else (Inr (True, Some me), tr))
      else (Inr (False, Some me), tr))"

definition api_key_process_request ::
  "api_key_client \<Rightarrow> pydict \<Rightarrow> bool \<Rightarrow> (error + pydict result) \<times> api_key_call list" where
  "api_key_process_request cl params check_mode =
     (case retrieve_api_key cl params [] of
        (Inl e, tr) \<Rightarrow> (Inl e, tr)
      | (Inr me, tr) \<Rightarrow>
          if py_get_default params ''state'' (PStr ''present'') = PStr ''absent'' \<and> me \<noteq> None
          then (case me of
                  None \<Rightarrow> (Inr \<lparr>changed = False, obj = None\<rparr>, tr)
                | Some k \<Rightarrow>
                    (case delete_api_key cl k check_mode tr of
                       (Inl e, tr') \<Rightarrow> (Inl e, tr')
                     | (Inr c, tr') \<Rightarrow> (Inr \<lparr>changed = c, obj = None\<rparr>, tr')))
          else if py_get_default params ''state'' (PStr ''present'') = PStr ''present''
          then (case me of
                  None \<Rightarrow>
                    (case create_api_key cl params check_mode tr of
                       (Inl e, tr') \<Rightarrow> (Inl e, tr')
                     | (Inr (c, k), tr') \<Rightarrow> (Inr \<lparr>changed = c, obj = k\<rparr>, tr'))
                | Some k \<Rightarrow>
                    (case update_api_key cl params k check_mode tr of
                       (Inl e, tr') \<Rightarrow> (Inl e, tr')
                     | (Inr (c, k'), tr') \<Rightarrow> (Inr \<lparr>changed = c, obj = k'\<rparr>, tr')))
          else (Inr \<lparr>changed = False, obj = None\<rparr>, tr))"

section \<open>The model module (apigw\_model.py)\<close>

datatype model_call =
    GetModel pyval pyval
  | DeleteModel pyval pyval
  | UpdateModel pyval pyval "patch list"
  | CreateModel "(string \<times> pyval) list"

record model_client =
  client_get_model :: "model_call list \<Rightarrow> pyval \<Rightarrow> pyval \<Rightarrow> pydict reply"
  client_delete_model :: "model_call list \<Rightarrow> pyval \<Rightarrow> pyval \<Rightarrow> unit reply"
  client_update_model :: "model_call list \<Rightarrow> pyval \<Rightarrow> pyval \<Rightarrow> patch list \<Rightarrow> pydict reply"
  client_create_model :: "model_call list \<Rightarrow> (string \<times> pyval) list \<Rightarrow> pydict reply"

text \<open>\<^verbatim>\<open>_find_model\<close> has the single handler \<^verbatim>\<open>except ClientError: return None\<close>.\<close>

definition find_model ::
  "model_client \<Rightarrow> pydict \<Rightarrow> model_call list \<Rightarrow> (error + pydict option) \<times> model_call list" where
  "find_model cl params tr =
     (let rid = py_get params ''rest_api_id'';
          nm = py_get params ''name'';
          tr' = tr @ [GetModel rid nm]
      in case client_get_model cl tr rid nm of
           Return m \<Rightarrow> (Inr (Some m), tr')
         | Raise (ClientError response message) \<Rightarrow> (Inr None, tr')
         | Raise (BotoCoreError message) \<Rightarrow> (Inl (Uncaught (BotoCoreError message)), tr'))"

text \<open>
  \<^verbatim>\<open>_delete_model\<close> tests \<^verbatim>\<open>'NotFoundException' in e.message\<close>, the message text of
  the exception, and returns \<^verbatim>\<open>None\<close> on every path that returns.
\<close>

definition delete_model ::
  "model_client \<Rightarrow> pydict \<Rightarrow> bool \<Rightarrow> model_call list \<Rightarrow> (error + unit) \<times> model_call list" where
  "delete_model cl params check_mode tr =
     (if \<not> check_mode then
        (let rid = py_get params ''rest_api_id'';
             nm = py_get params ''name'';
             tr' = tr @ [DeleteModel rid nm]
         in case client_delete_model cl tr rid nm of
              Return u \<Rightarrow> (Inr (), tr')
            | Raise (ClientError response message) \<Rightarrow>
                if py_in ''NotFoundException'' message then (Inr (), tr')
                else (Inl (FailJson (''Error while deleting model: '' @ message)), tr')
            | Raise (BotoCoreError message) \<Rightarrow> (Inl (Uncaught (BotoCoreError message)), tr'))
      else (Inr (), tr))"

definition patch_builder :: "pydict \<Rightarrow> patch list" where
  "patch_builder params =
     [\<lparr>patch_op = ''replace'', patch_path = ''/schema'', patch_value = py_get params ''schema''\<rparr>,
      \<lparr>patch_op = ''replace'', patch_path = ''/description'',
        patch_value = py_get params ''description''\<rparr>]"

definition update_model ::
  "model_client \<Rightarrow> pydict \<Rightarrow> pydict \<Rightarrow> bool \<Rightarrow> model_call list
     \<Rightarrow> (error + bool \<times> pydict option) \<times> model_call list" where
  "update_model cl params model check_mode tr =
     (let description = py_get model ''description'';
          moduleDescription = py_get params ''description''
      in case model ''schema'' of
           None \<Rightarrow> (Inl (KeyError ''schema''), tr)
         | Some schema \<Rightarrow>
             if py_get params ''schema'' = schema \<and> description = moduleDescription
             then (Inr (False, None), tr)
             else if check_mode then (Inr (True, None), tr)
             else
               (let patches = patch_builder params;
                    rid = py_get params ''rest_api_id'';
                    nm = py_get params ''name'';
                    tr' = tr @ [UpdateModel rid nm patches]
                in case client_update_model cl tr rid nm patches of
                     Return response \<Rightarrow> (Inr (True, Some response), tr')
                   | Raise (ClientError response message) \<Rightarrow>
                       (Inl (FailJson (''Error while updating model: '' @ message)), tr')
                   | Raise (BotoCoreError message) \<Rightarrow>
                       (Inl (Uncaught (BotoCoreError message)), tr')))"

definition create_model_args :: "pydict \<Rightarrow> (string \<times> pyval) list" where
  "create_model_args params =
     [(''restApiId'', py_get params ''rest_api_id''),
      (''name'', py_get params ''name''),
      (''contentType'', py_get params ''content_type''),
      (''schema'', py_get params ''schema''),
      (''description'', py_get params ''description'')]"

definition create_model ::
  "model_client \<Rightarrow> pydict \<Rightarrow> bool \<Rightarrow> model_call list
     \<Rightarrow> (error + bool \<times> pydict option) \<times> model_call list" where
  "create_model cl params check_mode tr =
     (if check_mode then (Inr (True, None), tr)
      else
        (let args = create_model_args params;
             tr' = tr @ [CreateModel args]
         in case client_create_model cl tr args of
              Return response \<Rightarrow> (Inr (True, Some response), tr')
            | Raise (ClientError response message) \<Rightarrow>
                (Inl (FailJson (''Error while creating model: '' @ message)), tr')
            | Raise (BotoCoreError message) \<Rightarrow> (Inl (Uncaught (BotoCoreError message)), tr')))"

definition model_process_request ::
  "model_client \<Rightarrow> pydict \<Rightarrow> bool \<Rightarrow> (error + pydict result) \<times> model_call list" where
  "model_process_request cl params check_mode =
     (case find_model cl params [] of
        (Inl e, tr) \<Rightarrow> (Inl e, tr)
      | (Inr model, tr) \<Rightarrow>
          if py_get params ''state'' = PStr ''absent'' \<and> model = None
          then (Inr \<lparr>changed = False, obj = None\<rparr>, tr)
          else if py_get params ''state'' = PStr ''absent''
          then (case delete_model cl params check_mode tr of
                  (Inl e, tr') \<Rightarrow> (Inl e, tr')
                | (Inr u, tr') \<Rightarrow> (Inr \<lparr>changed = True, obj = None\<rparr>, tr'))
          else (case model of
                  None \<Rightarrow>
                    (case create_model cl params check_mode tr of
                       (Inl e, tr') \<Rightarrow> (Inl e, tr')
                     | (Inr (c, r), tr') \<Rightarrow> (Inr \<lparr>changed = c, obj = r\<rparr>, tr'))
                | Some m \<Rightarrow>
                    (case update_model cl params m check_mode tr of
                       (Inl e, tr') \<Rightarrow> (Inl e, tr')
                     | (Inr (c, r), tr') \<Rightarrow> (Inr \<lparr>changed = c, obj = r\<rparr>, tr'))))"

section \<open>The resource path tree builder\<close>

text \<open>
  Modelled from the spec: the hierarchical resource module (apigw\_resource.py) is not
  among the sources, only its unit tests are. A node of the ResourcePath tree is the pair
  \<open>{id, parent id}\<close> of section 3; the root has no parent id. The object a create call
  returns is a node as well.
\<close>

record resource =
  res_id :: pyval
  res_parent :: "pyval option"

text \<open>
  Modelled from the spec: the create call of the missing resource module, with the
  arguments the unit tests show (the API id, the parent id and the path part).
\<close>

datatype resource_call = CreateResource pyval pyval string

text \<open>
  Modelled from the spec: the provider client of the missing resource module, as far as
  the tree builder of section 4.4 uses it.
\<close>

record resource_client =
  client_create_resource :: "resource_call list \<Rightarrow> pyval \<Rightarrow> pyval \<Rightarrow> string \<Rightarrow> resource reply"

text \<open>
  Modelled from the spec: "splitting on '/'" of section 4.4 for the missing resource
  module, as Python's \<^verbatim>\<open>split('/')\<close> does it.
\<close>

fun split_slash :: "string \<Rightarrow> string list" where
  "split_slash [] = [[]]"
| "split_slash (c # cs) =
     (if c = CHR ''/'' then [] # split_slash cs
      else (case split_slash cs of [] \<Rightarrow> [[c]] | w # ws \<Rightarrow> (c # w) # ws))"

text \<open>
  Modelled from the spec: the segments of a requested full path for the missing resource
  module, that is the pieces after its leading slash.
\<close>

definition segments :: "string \<Rightarrow> string list" where
  "segments name = (case split_slash name of [] \<Rightarrow> [] | first # rest \<Rightarrow> rest)"

text \<open>
  Modelled from the spec: joining segments with slashes, for the path strings that key
  the ResourcePath tree of the missing resource module.
\<close>

fun join_slash :: "string list \<Rightarrow> string" where
  "join_slash [] = []"
| "join_slash [s] = s"
| "join_slash (s # t # ts) = s @ ''/'' @ join_slash (t # ts)"

text \<open>
  Modelled from the spec: the full slash-delimited path string of a list of segments in
  the missing resource module; no segment gives the root path \<^verbatim>\<open>/\<close>.
\<close>

definition path_of :: "string list \<Rightarrow> string" where
  "path_of segs = ''/'' @ join_slash segs"

text \<open>
  Modelled from the spec: "find the longest existing prefix of the requested path" in the
  missing resource module. The search runs from the prefix of \<open>k\<close> segments downwards
  and returns the length of the first prefix that the map holds, with its node.
\<close>

fun deepest_existing :: "(string \<rightharpoonup> resource) \<Rightarrow> string list \<Rightarrow> nat \<Rightarrow> (nat \<times> resource) option" where
  "deepest_existing paths segs 0 =
     (case paths (path_of []) of None \<Rightarrow> None | Some node \<Rightarrow> Some (0, node))"
| "deepest_existing paths segs (Suc k) =
     (case paths (path_of (take (Suc k) segs)) of
        None \<Rightarrow> deepest_existing paths segs k
      | Some node \<Rightarrow> Some (Suc k, node))"

text \<open>
  Modelled from the spec: "issue one create call per segment in order, each using the
  immediately preceding segment's newly returned id as the parent for the next, stopping
  and returning only the final created object" in the missing resource module. A failing
  call is fatal (section 7), with the message the unit tests show.
\<close>

fun create_chain ::
  "resource_client \<Rightarrow> pyval \<Rightarrow> pyval \<Rightarrow> string list \<Rightarrow> resource option \<Rightarrow> resource_call list
     \<Rightarrow> (error + resource option) \<times> resource_call list" where
  "create_chain cl rid parent [] last_created tr = (Inr last_created, tr)"
| "create_chain cl rid parent (seg # segs) last_created tr =
     (case client_create_resource cl tr rid parent seg of
        Raise e \<Rightarrow>
          (Inl (FailJson (''Error calling boto3 create_resource: '' @ exn_text e)),
           tr @ [CreateResource rid parent seg])
      | Return r \<Rightarrow>
          create_chain cl rid (res_id r) segs (Some r) (tr @ [CreateResource rid parent seg]))"

text \<open>
  Modelled from the spec: the Resource Path Tree Builder of section 4.4 for the missing
  resource module, with the dry-run rule of sections 4.3 and 6 (no mutating call, changed
  still reported, object null). The spec does not say what happens when the map holds no
  prefix of the path at all, not even the root; the model ends with a failed lookup of the
  root path there.
\<close>

definition build_path_tree ::
  "resource_client \<Rightarrow> pyval \<Rightarrow> (string \<rightharpoonup> resource) \<Rightarrow> string \<Rightarrow> bool \<Rightarrow> resource_call list
     \<Rightarrow> (error + resource result) \<times> resource_call list" where
  "build_path_tree cl rid paths name check_mode tr =
     (let segs = segments name in
      case deepest_existing paths segs (length segs) of
        None \<Rightarrow> (Inl (KeyError ''/''), tr)
      | Some (k, node) \<Rightarrow>
          if k = length segs then (Inr \<lparr>changed = False, obj = Some node\<rparr>, tr)
          else if check_mode then (Inr \<lparr>changed = True, obj = None\<rparr>, tr)
          else (case create_chain cl rid (res_id node) (drop k segs) None tr of
                  (Inl e, tr') \<Rightarrow> (Inl e, tr')
                | (Inr r, tr') \<Rightarrow> (Inr \<lparr>changed = True, obj = r\<rparr>, tr')))"

section \<open>Example providers and requests\<close>

text \<open>
  Concrete providers and parameter dictionaries, on which the module functions are run in
  the examples that accompany the theorems below.
\<close>

definition stage_found_client :: "stage \<Rightarrow> stage_client" where
  "stage_found_client s =
     \<lparr>client_get_stage = (\<lambda>tr rid nm. Return s),
      client_delete_stage = (\<lambda>tr rid nm. Return ()),
      client_update_stage = (\<lambda>tr args. Return ())\<rparr>"


definition dev_stage :: stage where
  "dev_stage = \<lparr>attrs = [''stageName'' \<mapsto> PStr ''dev''], methodSettings = Some Map.empty\<rparr>"

definition stage_request :: "(string \<times> pyval) list \<Rightarrow> pydict list \<Rightarrow> stage_params" where
  "stage_request extra ms =
     \<lparr>scalars = map_of ([(''name'', PStr ''dev''), (''rest_api_id'', PStr ''abc'')] @ extra),
      method_settings = Some ms\<rparr>"


definition api_key_request :: "(string \<times> pyval) list \<Rightarrow> pydict" where
  "api_key_request extra = map_of ((''name'', PStr ''testify'') # extra)"

definition testify_key :: pydict where
  "testify_key = [''name'' \<mapsto> PStr ''testify'', ''enabled'' \<mapsto> PBool False, ''id'' \<mapsto> PStr ''ab12345'']"

definition testify_key_updated :: pydict where
  "testify_key_updated = [''name'' \<mapsto> PStr ''testify'', ''enabled'' \<mapsto> PBool True,
     ''id'' \<mapsto> PStr ''ab12345'', ''description'' \<mapsto> PStr ''test_description'']"

text \<open>
  A provider that lists \<open>before\<close> until a call has been issued and \<open>after\<close> from then
  on, and accepts every mutating call.
\<close>

definition api_key_listing_client :: "pydict list \<Rightarrow> pydict list \<Rightarrow> api_key_client" where
  "api_key_listing_client before after =
     \<lparr>client_get_api_keys = (\<lambda>tr nm. Return (Some (case tr of [] \<Rightarrow> before | c # cs \<Rightarrow> after))),
      client_delete_api_key = (\<lambda>tr i. Return ()),
      client_create_api_key = (\<lambda>tr args. Return (map_of args)),
      client_update_api_key = (\<lambda>tr i patches. Return ())\<rparr>"

definition model_request :: "(string \<times> pyval) list \<Rightarrow> pydict" where
  "model_request extra =
     map_of ([(''rest_api_id'', PStr ''abc''), (''name'', PStr ''Model'')] @ extra)"

definition pdf_model :: pydict where
  "pdf_model = [''name'' \<mapsto> PStr ''Model'', ''contentType'' \<mapsto> PStr ''application/pdf'',
     ''id'' \<mapsto> PStr ''some_model_id'', ''schema'' \<mapsto> PStr ''{}'', ''description'' \<mapsto> PStr ''a model'']"

text \<open>
  A provider whose \<^verbatim>\<open>get_model\<close> gives a fixed reply and which accepts every mutating
  call, answering an update or a create with a model object.
\<close>

definition model_client_replying :: "pydict reply \<Rightarrow> model_client" where
  "model_client_replying r =
     \<lparr>client_get_model = (\<lambda>tr rid nm. r),
      client_delete_model = (\<lambda>tr rid nm. Return ()),
      client_update_model = (\<lambda>tr rid nm patches. Return [''name'' \<mapsto> nm, ''id'' \<mapsto> PStr ''some_model_id'']),
      client_create_model = (\<lambda>tr args. Return (map_of args))\<rparr>"

definition access_denied :: exn where
  "access_denied = ClientError ''{Error: {Code: AccessDeniedException, Message: User is not authorized}}''
     ''An error occurred (AccessDeniedException) when calling the GetModel operation: User is not authorized''"

text \<open>
  A provider for the tree builder: it accepts every create call and answers with a node
  whose id is the path part followed by \<^verbatim>\<open>_id\<close> and whose parent id is the parent given.
\<close>

definition naming_resource_client :: resource_client where
  "naming_resource_client =
     \<lparr>client_create_resource = (\<lambda>tr rid parent part.
        Return \<lparr>res_id = PStr (part @ ''_id''), res_parent = Some parent\<rparr>)\<rparr>"

definition root_only :: "string \<rightharpoonup> resource" where
  "root_only = [''/'' \<mapsto> \<lparr>res_id = PStr ''root'', res_parent = None\<rparr>]"

definition root_and_res1 :: "string \<rightharpoonup> resource" where
  "root_and_res1 = [''/'' \<mapsto> \<lparr>res_id = PStr ''root'', res_parent = None\<rparr>,
     ''/res1'' \<mapsto> \<lparr>res_id = PStr ''abc'', res_parent = Some (PStr ''root'')\<rparr>]"

section \<open>The stage patch builder\<close>














section \<open>The stage request\<close>

lemma find_stage_trace:
  "snd (find_stage cl params tr) =
     tr @ [GetStage (py_get (scalars params) ''rest_api_id'') (py_get (scalars params) ''name'')]"
  by (simp add: find_stage_def Let_def split: reply.splits exn.splits)

lemma update_stage_noop:
  "build_patch_args stg params = Inr None \<Longrightarrow>
   update_stage cl stg params check_mode tr = (Inr (False, None), tr)"
  by (simp add: update_stage_def)

lemma update_stage_check_mode:
  "build_patch_args stg params = Inr (Some args) \<Longrightarrow>
   update_stage cl stg params True tr = (Inr (True, None), tr)"
  by (simp add: update_stage_def)

lemma update_stage_applied:
  "build_patch_args stg params = Inr (Some args) \<Longrightarrow>
   client_update_stage cl tr args = Return u \<Longrightarrow>
   client_get_stage cl (tr @ [UpdateStage args]) (py_get (scalars params) ''rest_api_id'')
      (py_get (scalars params) ''name'') = Return s \<Longrightarrow>
   update_stage cl stg params False tr =
     (Inr (True, Some s),
      tr @ [UpdateStage args,
            GetStage (py_get (scalars params) ''rest_api_id'') (py_get (scalars params) ''name'')])"
  by (simp add: update_stage_def)

lemma update_stage_issues_call:
  "build_patch_args stg params = Inr (Some args) \<Longrightarrow>
   \<exists>out rest. update_stage cl stg params False tr = (out, tr @ UpdateStage args # rest) \<and>
      (\<forall>c r. out = Inr (c, r) \<longrightarrow> c)"
  by (auto simp: update_stage_def Let_def split: reply.splits)

lemma stage_request_present:
  "find_stage cl params [] = (Inr stg, tr) \<Longrightarrow>
   py_get_default (scalars params) ''state'' (PStr ''present'') = PStr ''present'' \<Longrightarrow>
   stage_process_request cl params check_mode =
     (case update_stage cl stg params check_mode tr of
        (Inl e, tr') \<Rightarrow> (Inl e, tr')
      | (Inr (c, r), tr') \<Rightarrow> (Inr \<lparr>changed = c, obj = r\<rparr>, tr'))"
  by (simp add: stage_process_request_def)

lemma stage_request_absent_found:
  "find_stage cl params [] = (Inr (Some s), tr) \<Longrightarrow>
   py_get_default (scalars params) ''state'' (PStr ''present'') = PStr ''absent'' \<Longrightarrow>
   stage_process_request cl params check_mode =
     (case delete_stage cl params check_mode tr of
        (Inl e, tr') \<Rightarrow> (Inl e, tr')
      | (Inr c, tr') \<Rightarrow> (Inr \<lparr>changed = c, obj = None\<rparr>, tr'))"
  by (simp add: stage_process_request_def)

lemma stage_found_client_find:
  "find_stage (stage_found_client s) (stage_request extra ms) [] =
     (Inr (Some s), [GetStage (PStr ''abc'') (PStr ''dev'')])"
  by (simp add: find_stage_def stage_found_client_def stage_request_def py_get_def)







section \<open>What a patch list can hold\<close>

lemma field_patch_member:
  "p \<in> set (field_patch stg params (a, b)) \<Longrightarrow>
   \<exists>v. params a = Some v \<and> v \<noteq> PNone \<and>
       (stg b = None \<or> (\<exists>w. stg b = Some w \<and> py_str v \<noteq> py_str w)) \<and> p = create_patch b v"
proof -
  assume p: "p \<in> set (field_patch stg params (a, b))"
  then obtain v where v: "params a = Some v"
    by (cases "params a") (auto simp: field_patch_def)
  with p have ne: "v \<noteq> PNone"
    by (auto simp: field_patch_def split: if_splits)
  show ?thesis
  proof (cases "stg b")
    case None
    with p v ne show ?thesis by (auto simp: field_patch_def)
  next
    case (Some w)
    with p v ne show ?thesis by (auto simp: field_patch_def split: if_splits)
  qed
qed

lemma method_patch_member:
  "method_patch stg m = Inr ps \<Longrightarrow> p \<in> set ps \<Longrightarrow>
   \<exists>key. method_key m = Inr key \<and>
      (stg key = None \<or>
       (\<exists>setting c. stg key = Some setting \<and> setting ''cachingEnabled'' = Some c \<and>
          py_str c \<noteq> py_str (py_get_default m ''caching_enabled'' (PBool False)))) \<and>
      p = create_patch (key @ ''/caching/enabled'') (py_get_default m ''caching_enabled'' (PBool False))"
  by (auto simp: method_patch_def Let_def split: sum.splits option.splits if_splits)

lemma method_loop_member:
  "method_loop stg ms acc = Inr r \<Longrightarrow> p \<in> set r \<Longrightarrow>
   p \<in> set acc \<or>
   (\<exists>m \<in> set ms. \<exists>key. method_key m = Inr key \<and>
      (stg key = None \<or>
       (\<exists>setting c. stg key = Some setting \<and> setting ''cachingEnabled'' = Some c \<and>
          py_str c \<noteq> py_str (py_get_default m ''caching_enabled'' (PBool False)))) \<and>
      p = create_patch (key @ ''/caching/enabled'') (py_get_default m ''caching_enabled'' (PBool False)))"
proof (induction ms arbitrary: acc)
  case Nil
  then show ?case by simp
next
  case (Cons x ms)
  then obtain ps where ps: "method_patch stg x = Inr ps"
    by (cases "method_patch stg x") auto
  with Cons.prems have loop: "method_loop stg ms (acc @ ps) = Inr r" by simp
  from Cons.IH [OF loop Cons.prems(2)] show ?case
  proof
    assume "p \<in> set (acc @ ps)"
    then consider "p \<in> set acc" | "p \<in> set ps" by auto
    then show ?thesis
    proof cases
      case 1
      then show ?thesis by simp
    next
      case 2
      from method_patch_member [OF ps 2] show ?thesis by auto
    qed
  next
    assume "\<exists>m \<in> set ms. \<exists>key. method_key m = Inr key \<and>
      (stg key = None \<or>
       (\<exists>setting c. stg key = Some setting \<and> setting ''cachingEnabled'' = Some c \<and>
          py_str c \<noteq> py_str (py_get_default m ''caching_enabled'' (PBool False)))) \<and>
      p = create_patch (key @ ''/caching/enabled'') (py_get_default m ''caching_enabled'' (PBool False))"
    then show ?thesis by auto
  qed
qed

lemma build_patch_args_member:
  assumes b: "build_patch_args (Some stg) params = Inr (Some args)"
      and p: "p \<in> set (patchOperations args)"
  shows "(\<exists>a b v. (a, b) \<in> set arg_map \<and> scalars params a = Some v \<and> v \<noteq> PNone \<and>
            (attrs stg b = None \<or> (\<exists>w. attrs stg b = Some w \<and> py_str v \<noteq> py_str w)) \<and>
            p = create_patch b v) \<or>
         (\<exists>ms m key. method_settings params = Some ms \<and> m \<in> set ms \<and> method_key m = Inr key \<and>
            ((case methodSettings stg of None \<Rightarrow> Map.empty | Some held \<Rightarrow> held) key = None \<or>
             (\<exists>setting c. (case methodSettings stg of None \<Rightarrow> Map.empty | Some held \<Rightarrow> held) key = Some setting \<and>
                setting ''cachingEnabled'' = Some c \<and>
                py_str c \<noteq> py_str (py_get_default m ''caching_enabled'' (PBool False)))) \<and>
            p = create_patch (key @ ''/caching/enabled'')
                  (py_get_default m ''caching_enabled'' (PBool False)))"
proof -
  let ?held = "case methodSettings stg of None \<Rightarrow> Map.empty | Some held \<Rightarrow> held"
  let ?ms = "case method_settings params of None \<Rightarrow> [] | Some ms \<Rightarrow> ms"
  let ?fp = "concat (map (field_patch (attrs stg) (scalars params)) arg_map)"
  from b have loop: "method_loop ?held ?ms ?fp = Inr (patchOperations args)"
    by (auto simp: build_patch_args_def split: sum.splits if_splits option.splits)
  from method_loop_member [OF loop p] show ?thesis
  proof
    assume "p \<in> set ?fp"
    then obtain am where am: "am \<in> set arg_map" and pm: "p \<in> set (field_patch (attrs stg) (scalars params) am)"
      by auto
    obtain a b where ab: "am = (a, b)" by (cases am)
    from field_patch_member [OF pm [unfolded ab]] am ab show ?thesis by blast
  next
    assume m: "\<exists>m \<in> set ?ms. \<exists>key. method_key m = Inr key \<and>
      (?held key = None \<or>
       (\<exists>setting c. ?held key = Some setting \<and> setting ''cachingEnabled'' = Some c \<and>
          py_str c \<noteq> py_str (py_get_default m ''caching_enabled'' (PBool False)))) \<and>
      p = create_patch (key @ ''/caching/enabled'') (py_get_default m ''caching_enabled'' (PBool False))"
    then obtain m key where mm: "m \<in> set ?ms" and k: "method_key m = Inr key"
      and d: "?held key = None \<or>
       (\<exists>setting c. ?held key = Some setting \<and> setting ''cachingEnabled'' = Some c \<and>
          py_str c \<noteq> py_str (py_get_default m ''caching_enabled'' (PBool False)))"
      and pe: "p = create_patch (key @ ''/caching/enabled'') (py_get_default m ''caching_enabled'' (PBool False))"
      by blast
    from mm obtain ms where ms: "method_settings params = Some ms" and mem: "m \<in> set ms"
      by (cases "method_settings params") auto
    from ms mem k d pe show ?thesis by blast
  qed
qed

lemma api_key_patch_member:
  "p \<in> set (api_key_patch params me param) \<Longrightarrow>
   \<exists>v. params param = Some v \<and> v \<noteq> PNone \<and>
       (me param = None \<or> (\<exists>w. me param = Some w \<and> py_str v \<noteq> py_str w)) \<and>
       p = \<lparr>patch_op = ''replace'', patch_path = ''/'' @ param, patch_value = PStr (py_str v)\<rparr>"
  by (auto simp: api_key_patch_def Let_def py_get_def split: option.splits if_splits)

lemma create_patches_member:
  "p \<in> set (create_patches params me) \<Longrightarrow>
   \<exists>param v. (param = ''enabled'' \<or> param = ''description'') \<and>
       params param = Some v \<and> v \<noteq> PNone \<and>
       (me param = None \<or> (\<exists>w. me param = Some w \<and> py_str v \<noteq> py_str w)) \<and>
       p = \<lparr>patch_op = ''replace'', patch_path = ''/'' @ param, patch_value = PStr (py_str v)\<rparr>"
  unfolding create_patches_def using api_key_patch_member [of p params me] by auto

lemma api_key_patch_cong:
  "params param = params' param \<Longrightarrow> me param = me' param \<Longrightarrow>
   api_key_patch params me param = api_key_patch params' me' param"
proof -
  assume a: "params param = params' param" and b: "me param = me' param"
  show ?thesis unfolding api_key_patch_def py_get_def a b ..
qed

lemma create_patches_cong:
  "params ''enabled'' = params' ''enabled'' \<Longrightarrow> params ''description'' = params' ''description'' \<Longrightarrow>
   me ''enabled'' = me' ''enabled'' \<Longrightarrow> me ''description'' = me' ''description'' \<Longrightarrow>
   create_patches params me = create_patches params' me'"
  by (simp add: create_patches_def api_key_patch_cong [of params _ params' me me'])


section \<open>The API key request\<close>

lemma retrieve_api_key_trace:
  "retrieve_api_key cl params tr = (Inr k, tr') \<Longrightarrow>
   \<exists>nm. params ''name'' = Some nm \<and> tr' = tr @ [GetApiKeys nm]"
  by (auto simp: retrieve_api_key_def Let_def split: option.splits reply.splits exn.splits)

lemma retrieve_api_key_calls:
  "snd (retrieve_api_key cl params tr) = tr \<or>
   (\<exists>nm. snd (retrieve_api_key cl params tr) = tr @ [GetApiKeys nm])"
  by (auto simp: retrieve_api_key_def Let_def split: option.splits reply.splits exn.splits)

lemma update_api_key_noop:
  "create_patches params me = [] \<Longrightarrow>
   update_api_key cl params me check_mode tr = (Inr (False, Some me), tr)"
  by (simp add: update_api_key_def)

lemma update_api_key_check_mode:
  "create_patches params me \<noteq> [] \<Longrightarrow>
   update_api_key cl params me True tr = (Inr (True, Some me), tr)"
  by (simp add: update_api_key_def)

lemma update_api_key_applied:
  "create_patches params me \<noteq> [] \<Longrightarrow> me ''id'' = Some i \<Longrightarrow>
   client_update_api_key cl tr i (create_patches params me) = Return u \<Longrightarrow>
   retrieve_api_key cl params (tr @ [UpdateApiKey i (create_patches params me)]) = (Inr k, tr2) \<Longrightarrow>
   update_api_key cl params me False tr = (Inr (True, k), tr2)"
  by (simp add: update_api_key_def)

lemma update_api_key_calls:
  "c \<in> set (drop (length tr) (snd (update_api_key cl params me check_mode tr))) \<Longrightarrow>
   (\<exists>nm. c = GetApiKeys nm) \<or> (\<exists>i. c = UpdateApiKey i (create_patches params me))"
proof -
  assume c: "c \<in> set (drop (length tr) (snd (update_api_key cl params me check_mode tr)))"
  show ?thesis
  proof (cases "create_patches params me \<noteq> [] \<and> \<not> check_mode")
    case False
    with c show ?thesis by (auto simp: update_api_key_def Let_def)
  next
    case True
    show ?thesis
    proof (cases "me ''id''")
      case None
      with c True show ?thesis by (simp add: update_api_key_def)
    next
      case (Some i)
      let ?tr1 = "tr @ [UpdateApiKey i (create_patches params me)]"
      show ?thesis
      proof (cases "client_update_api_key cl tr i (create_patches params me)")
        case (Raise e)
        with c True Some show ?thesis
          by (cases e) (auto simp: update_api_key_def)
      next
        case (Return u)
        with True Some have s: "snd (update_api_key cl params me check_mode tr) =
            snd (retrieve_api_key cl params ?tr1)"
          by (auto simp: update_api_key_def split: prod.splits sum.splits)
        from retrieve_api_key_calls [of cl params ?tr1] c show ?thesis
          unfolding s by auto
      qed
    qed
  qed
qed

lemma api_key_request_found_present:
  "retrieve_api_key cl params [] = (Inr (Some me), tr) \<Longrightarrow>
   py_get_default params ''state'' (PStr ''present'') = PStr ''present'' \<Longrightarrow>
   api_key_process_request cl params check_mode =
     (case update_api_key cl params me check_mode tr of
        (Inl e, tr') \<Rightarrow> (Inl e, tr')
      | (Inr (c, k'), tr') \<Rightarrow> (Inr \<lparr>changed = c, obj = k'\<rparr>, tr'))"
  by (simp add: api_key_process_request_def)

lemma api_key_request_missing_present:
  "retrieve_api_key cl params [] = (Inr None, tr) \<Longrightarrow>
   py_get_default params ''state'' (PStr ''present'') = PStr ''present'' \<Longrightarrow>
   api_key_process_request cl params check_mode =
     (case create_api_key cl params check_mode tr of
        (Inl e, tr') \<Rightarrow> (Inl e, tr')
      | (Inr (c, k), tr') \<Rightarrow> (Inr \<lparr>changed = c, obj = k\<rparr>, tr'))"
  by (simp add: api_key_process_request_def)

lemma api_key_request_found_absent:
  "retrieve_api_key cl params [] = (Inr (Some me), tr) \<Longrightarrow>
   py_get_default params ''state'' (PStr ''present'') = PStr ''absent'' \<Longrightarrow>
   api_key_process_request cl params check_mode =
     (case delete_api_key cl me check_mode tr of
        (Inl e, tr') \<Rightarrow> (Inl e, tr')
      | (Inr c, tr') \<Rightarrow> (Inr \<lparr>changed = c, obj = None\<rparr>, tr'))"
  by (simp add: api_key_process_request_def)

lemma create_api_key_check_mode:
  "create_api_key cl params True tr = (Inr (True, None), tr)"
  by (simp add: create_api_key_def)

lemma create_api_key_issues_call:
  "params ''name'' = Some nm \<Longrightarrow>
   \<exists>out. create_api_key cl params False tr = (out, tr @ [CreateApiKey (create_api_key_args params nm)]) \<and>
     (\<forall>c k. out = Inr (c, k) \<longrightarrow> c) \<and>
     (\<forall>k. client_create_api_key cl tr (create_api_key_args params nm) = Return k \<longrightarrow>
        out = Inr (True, Some k))"
  by (auto simp: create_api_key_def Let_def split: reply.splits exn.splits)

lemma opt_field_args_member:
  "(f, v) \<in> set (opt_field_args params g) \<longleftrightarrow>
     f = g \<and> params g = Some v \<and> v \<noteq> PNone \<and> v \<noteq> PStr ''''"
  by (auto simp: opt_field_args_def py_get_def split: option.splits)

lemma create_api_key_args_shape:
  "take 3 (create_api_key_args params nm) =
     [(''name'', nm),
      (''enabled'', py_get_default params ''enabled'' (PBool False)),
      (''generateDistinctId'', py_get_default params ''generate_distinct_id'' (PBool False))]"
  "(f, v) \<in> set (drop 3 (create_api_key_args params nm)) \<longleftrightarrow>
     (f = ''description'' \<or> f = ''value'') \<and> params f = Some v \<and> v \<noteq> PNone \<and> v \<noteq> PStr ''''"
  by (auto simp: create_api_key_args_def opt_field_args_member)

section \<open>The model request\<close>

lemma model_request_found_present:
  "find_model cl params [] = (Inr (Some m), tr) \<Longrightarrow>
   py_get params ''state'' = PStr ''present'' \<Longrightarrow>
   model_process_request cl params check_mode =
     (case update_model cl params m check_mode tr of
        (Inl e, tr') \<Rightarrow> (Inl e, tr')
      | (Inr (c, r), tr') \<Rightarrow> (Inr \<lparr>changed = c, obj = r\<rparr>, tr'))"
  by (simp add: model_process_request_def)

lemma model_request_missing_present:
  "find_model cl params [] = (Inr None, tr) \<Longrightarrow>
   py_get params ''state'' = PStr ''present'' \<Longrightarrow>
   model_process_request cl params check_mode =
     (case create_model cl params check_mode tr of
        (Inl e, tr') \<Rightarrow> (Inl e, tr')
      | (Inr (c, r), tr') \<Rightarrow> (Inr \<lparr>changed = c, obj = r\<rparr>, tr'))"
  by (simp add: model_process_request_def)

lemma update_model_noop:
  "model ''schema'' = Some schema \<Longrightarrow> py_get params ''schema'' = schema \<Longrightarrow>
   py_get model ''description'' = py_get params ''description'' \<Longrightarrow>
   update_model cl params model check_mode tr = (Inr (False, None), tr)"
  by (simp add: update_model_def)

lemma update_model_check_mode:
  "model ''schema'' = Some schema \<Longrightarrow>
   py_get params ''schema'' \<noteq> schema \<or> py_get model ''description'' \<noteq> py_get params ''description'' \<Longrightarrow>
   update_model cl params model True tr = (Inr (True, None), tr)"
  by (auto simp: update_model_def)

lemma update_model_applied:
  "model ''schema'' = Some schema \<Longrightarrow>
   py_get params ''schema'' \<noteq> schema \<or> py_get model ''description'' \<noteq> py_get params ''description'' \<Longrightarrow>
   client_update_model cl tr (py_get params ''rest_api_id'') (py_get params ''name'')
      (patch_builder params) = Return r \<Longrightarrow>
   update_model cl params model False tr =
     (Inr (True, Some r),
      tr @ [UpdateModel (py_get params ''rest_api_id'') (py_get params ''name'') (patch_builder params)])"
  by (auto simp: update_model_def)

lemma update_model_issues_call:
  "model ''schema'' = Some schema \<Longrightarrow>
   py_get params ''schema'' \<noteq> schema \<or> py_get model ''description'' \<noteq> py_get params ''description'' \<Longrightarrow>
   snd (update_model cl params model False tr) =
     tr @ [UpdateModel (py_get params ''rest_api_id'') (py_get params ''name'') (patch_builder params)]"
  by (auto simp: update_model_def Let_def split: reply.splits exn.splits)

lemma create_model_check_mode:
  "create_model cl params True tr = (Inr (True, None), tr)"
  by (simp add: create_model_def)

lemma create_model_issues_call:
  "\<exists>out. create_model cl params False tr = (out, tr @ [CreateModel (create_model_args params)]) \<and>
     (\<forall>c r. out = Inr (c, r) \<longrightarrow> c) \<and>
     (\<forall>r. client_create_model cl tr (create_model_args params) = Return r \<longrightarrow>
        out = Inr (True, Some r))"
  by (auto simp: create_model_def Let_def split: reply.splits exn.splits)

section \<open>The API key diff builder: frame and suppression\<close>

lemma create_patches_paths:
  "p \<in> set (create_patches params me) \<Longrightarrow>
   patch_path p = ''/enabled'' \<or> patch_path p = ''/description''"
  using create_patches_member [of p params me] by auto

text \<open>
  C10. In the api\_key module the diff builder looks at the enabled and description fields
  only: whatever value or generate\_distinct\_id the user supplies and whatever the
  observed key holds for them, no patch operation is produced for them, so the one
  mutating call of an update carries operations on \<^verbatim>\<open>/enabled\<close> and \<^verbatim>\<open>/description\<close>
  only and leaves the key's value, name and distinct-id setting alone.
\<close>

theorem api_key_patches_frame:
  "(\<forall>p \<in> set (create_patches params me).
      patch_path p = ''/enabled'' \<or> patch_path p = ''/description'') \<and>
   (\<forall>params' me'.
      params' ''enabled'' = params ''enabled'' \<and> params' ''description'' = params ''description'' \<and>
      me' ''enabled'' = me ''enabled'' \<and> me' ''description'' = me ''description'' \<longrightarrow>
      create_patches params' me' = create_patches params me) \<and>
   (\<forall>c \<in> set (drop (length tr) (snd (update_api_key cl params me check_mode tr))).
      (\<exists>nm. c = GetApiKeys nm) \<or> (\<exists>i. c = UpdateApiKey i (create_patches params me)))"
proof (intro conjI ballI allI impI)
  fix p assume "p \<in> set (create_patches params me)"
  then show "patch_path p = ''/enabled'' \<or> patch_path p = ''/description''"
    by (rule create_patches_paths)
next
  fix params' me'
  assume "params' ''enabled'' = params ''enabled'' \<and> params' ''description'' = params ''description'' \<and>
      me' ''enabled'' = me ''enabled'' \<and> me' ''description'' = me ''description''"
  then show "create_patches params' me' = create_patches params me"
    by (intro create_patches_cong) simp_all
next
  fix c assume "c \<in> set (drop (length tr) (snd (update_api_key cl params me check_mode tr)))"
  then show "(\<exists>nm. c = GetApiKeys nm) \<or> (\<exists>i. c = UpdateApiKey i (create_patches params me))"
    by (rule update_api_key_calls)
qed

theorem api_key_patches_frame_witness:
  "create_patches
     (api_key_request [(''enabled'', PBool True), (''value'', PStr ''new_value''),
        (''generate_distinct_id'', PBool True)])
     (testify_key(''value'' \<mapsto> PStr ''old_value'')) =
   create_patches (api_key_request [(''enabled'', PBool True)]) testify_key \<and>
   create_patches (api_key_request [(''enabled'', PBool True)]) testify_key =
     [\<lparr>patch_op = ''replace'', patch_path = ''/enabled'', patch_value = PStr ''True''\<rparr>] \<and>
   list_all (\<lambda>p. patch_path p = ''/enabled'' \<or> patch_path p = ''/description'')
     (create_patches (api_key_request [(''enabled'', PBool True)]) testify_key) \<and>
   snd (update_api_key (api_key_listing_client [testify_key] [testify_key_updated])
          (api_key_request [(''enabled'', PBool True), (''value'', PStr ''new_value''),
             (''generate_distinct_id'', PBool True)])
          (testify_key(''value'' \<mapsto> PStr ''old_value'')) False []) =
     [UpdateApiKey (PStr ''ab12345'')
        [\<lparr>patch_op = ''replace'', patch_path = ''/enabled'', patch_value = PStr ''True''\<rparr>],
      GetApiKeys (PStr ''testify'')] \<and>
   list_all (\<lambda>c. (\<exists>nm. c = GetApiKeys nm) \<or>
               (\<exists>i. c = UpdateApiKey i
                  [\<lparr>patch_op = ''replace'', patch_path = ''/enabled'', patch_value = PStr ''True''\<rparr>]))
     (snd (update_api_key (api_key_listing_client [testify_key] [testify_key_updated])
          (api_key_request [(''enabled'', PBool True), (''value'', PStr ''new_value''),
             (''generate_distinct_id'', PBool True)])
          (testify_key(''value'' \<mapsto> PStr ''old_value'')) False []))"
proof -
  let ?params = "api_key_request [(''enabled'', PBool True)]"
  let ?params' = "api_key_request [(''enabled'', PBool True), (''value'', PStr ''new_value''),
        (''generate_distinct_id'', PBool True)]"
  let ?me' = "testify_key(''value'' \<mapsto> PStr ''old_value'')"
  let ?cl = "api_key_listing_client [testify_key] [testify_key_updated]"
  have same: "?params' ''enabled'' = ?params ''enabled'' \<and>
      ?params' ''description'' = ?params ''description'' \<and>
      ?me' ''enabled'' = testify_key ''enabled'' \<and> ?me' ''description'' = testify_key ''description''"
    by (simp add: api_key_request_def)
  note th = api_key_patches_frame [of ?params testify_key "[]" ?cl False]
  note th' = api_key_patches_frame [of ?params' ?me' "[]" ?cl False]
  from th same
  have a: "create_patches ?params' ?me' = create_patches ?params testify_key"
    by blast
  have b: "create_patches ?params testify_key =
     [\<lparr>patch_op = ''replace'', patch_path = ''/enabled'', patch_value = PStr ''True''\<rparr>]"
    by (simp add: create_patches_def api_key_patch_def api_key_request_def testify_key_def py_get_def)
  from conjunct1 [OF th]
  have p: "list_all (\<lambda>p. patch_path p = ''/enabled'' \<or> patch_path p = ''/description'')
     (create_patches ?params testify_key)"
    by (simp add: list_all_iff)
  have c: "snd (update_api_key ?cl ?params' ?me' False []) =
     [UpdateApiKey (PStr ''ab12345'')
        [\<lparr>patch_op = ''replace'', patch_path = ''/enabled'', patch_value = PStr ''True''\<rparr>],
      GetApiKeys (PStr ''testify'')]"
    unfolding update_api_key_def a b
    by (simp add: testify_key_def api_key_listing_client_def retrieve_api_key_def api_key_request_def
        testify_key_updated_def)
  from conjunct2 [OF conjunct2 [OF th']]
  have "list_all (\<lambda>c. (\<exists>nm. c = GetApiKeys nm) \<or> (\<exists>i. c = UpdateApiKey i (create_patches ?params' ?me')))
     (snd (update_api_key ?cl ?params' ?me' False []))"
    by (simp add: list_all_iff)
  then have d: "list_all (\<lambda>c. (\<exists>nm. c = GetApiKeys nm) \<or>
               (\<exists>i. c = UpdateApiKey i
                  [\<lparr>patch_op = ''replace'', patch_path = ''/enabled'', patch_value = PStr ''True''\<rparr>]))
     (snd (update_api_key ?cl ?params' ?me' False []))"
    by (simp only: a b)
  from a b p c d show ?thesis by (intro conjI)
qed

section \<open>Empty descriptions\<close>





section \<open>What the diff builders emit\<close>

text \<open>
  C4, as the code has it. The api\_key and the stage builders emit a replace operation only
  for a field the user supplied whose string form differs from the observed value, or
  that the observed state lacks (for the stage also for a method entry whose key is
  unobserved or whose caching flag differs): a field that is equal, or that was not
  supplied, never appears. The model module does not diff per field: it compares the
  schema and the description as they are, emits nothing when both are equal and
  otherwise always the two operations on \<^verbatim>\<open>/schema\<close> and \<^verbatim>\<open>/description\<close>, with the
  supplied values (\<open>None\<close> for a field that was not supplied).
\<close>

theorem patch_lists_hold_differing_fields:
  "(\<forall>p \<in> set (create_patches kparams me).
      \<exists>param v. (param = ''enabled'' \<or> param = ''description'') \<and>
        kparams param = Some v \<and> v \<noteq> PNone \<and>
        (me param = None \<or> (\<exists>w. me param = Some w \<and> py_str v \<noteq> py_str w)) \<and>
        p = \<lparr>patch_op = ''replace'', patch_path = ''/'' @ param, patch_value = PStr (py_str v)\<rparr>) \<and>
   (\<forall>args. build_patch_args (Some stg) sparams = Inr (Some args) \<longrightarrow>
      (\<forall>p \<in> set (patchOperations args).
         (\<exists>a b v. (a, b) \<in> set arg_map \<and> scalars sparams a = Some v \<and> v \<noteq> PNone \<and>
            (attrs stg b = None \<or> (\<exists>w. attrs stg b = Some w \<and> py_str v \<noteq> py_str w)) \<and>
            p = create_patch b v) \<or>
         (\<exists>ms m key. method_settings sparams = Some ms \<and> m \<in> set ms \<and> method_key m = Inr key \<and>
            ((case methodSettings stg of None \<Rightarrow> Map.empty | Some held \<Rightarrow> held) key = None \<or>
             (\<exists>setting c. (case methodSettings stg of None \<Rightarrow> Map.empty | Some held \<Rightarrow> held) key = Some setting \<and>
                setting ''cachingEnabled'' = Some c \<and>
                py_str c \<noteq> py_str (py_get_default m ''caching_enabled'' (PBool False)))) \<and>
            p = create_patch (key @ ''/caching/enabled'')
                  (py_get_default m ''caching_enabled'' (PBool False))))) \<and>
   (\<forall>schema. model ''schema'' = Some schema \<and> py_get mparams ''schema'' = schema \<and>
        py_get model ''description'' = py_get mparams ''description'' \<longrightarrow>
      update_model mcl mparams model check_mode mtr = (Inr (False, None), mtr)) \<and>
   (\<forall>schema. model ''schema'' = Some schema \<and>
        (py_get mparams ''schema'' \<noteq> schema \<or>
         py_get model ''description'' \<noteq> py_get mparams ''description'') \<longrightarrow>
      snd (update_model mcl mparams model False mtr) =
        mtr @ [UpdateModel (py_get mparams ''rest_api_id'') (py_get mparams ''name'')
                 [\<lparr>patch_op = ''replace'', patch_path = ''/schema'',
                    patch_value = py_get mparams ''schema''\<rparr>,
                  \<lparr>patch_op = ''replace'', patch_path = ''/description'',
                    patch_value = py_get mparams ''description''\<rparr>]])"
proof (intro conjI ballI allI impI)
  fix p assume "p \<in> set (create_patches kparams me)"
  then show "\<exists>param v. (param = ''enabled'' \<or> param = ''description'') \<and>
        kparams param = Some v \<and> v \<noteq> PNone \<and>
        (me param = None \<or> (\<exists>w. me param = Some w \<and> py_str v \<noteq> py_str w)) \<and>
        p = \<lparr>patch_op = ''replace'', patch_path = ''/'' @ param, patch_value = PStr (py_str v)\<rparr>"
    by (rule create_patches_member)
next
  fix args p
  assume "build_patch_args (Some stg) sparams = Inr (Some args)" and "p \<in> set (patchOperations args)"
  then show "(\<exists>a b v. (a, b) \<in> set arg_map \<and> scalars sparams a = Some v \<and> v \<noteq> PNone \<and>
            (attrs stg b = None \<or> (\<exists>w. attrs stg b = Some w \<and> py_str v \<noteq> py_str w)) \<and>
            p = create_patch b v) \<or>
         (\<exists>ms m key. method_settings sparams = Some ms \<and> m \<in> set ms \<and> method_key m = Inr key \<and>
            ((case methodSettings stg of None \<Rightarrow> Map.empty | Some held \<Rightarrow> held) key = None \<or>
             (\<exists>setting c. (case methodSettings stg of None \<Rightarrow> Map.empty | Some held \<Rightarrow> held) key = Some setting \<and>
                setting ''cachingEnabled'' = Some c \<and>
                py_str c \<noteq> py_str (py_get_default m ''caching_enabled'' (PBool False)))) \<and>
            p = create_patch (key @ ''/caching/enabled'')
                  (py_get_default m ''caching_enabled'' (PBool False)))"
    by (rule build_patch_args_member)
next
  fix schema
  assume "model ''schema'' = Some schema \<and> py_get mparams ''schema'' = schema \<and>
        py_get model ''description'' = py_get mparams ''description''"
  then show "update_model mcl mparams model check_mode mtr = (Inr (False, None), mtr)"
    by (simp add: update_model_noop)
next
  fix schema
  assume a: "model ''schema'' = Some schema \<and>
        (py_get mparams ''schema'' \<noteq> schema \<or>
         py_get model ''description'' \<noteq> py_get mparams ''description'')"
  then have s: "model ''schema'' = Some schema"
    and d: "py_get mparams ''schema'' \<noteq> schema \<or>
         py_get model ''description'' \<noteq> py_get mparams ''description''"
    by simp_all
  from update_model_issues_call [where model = model and params = mparams, OF s d]
  show "snd (update_model mcl mparams model False mtr) =
        mtr @ [UpdateModel (py_get mparams ''rest_api_id'') (py_get mparams ''name'')
                 [\<lparr>patch_op = ''replace'', patch_path = ''/schema'',
                    patch_value = py_get mparams ''schema''\<rparr>,
                  \<lparr>patch_op = ''replace'', patch_path = ''/description'',
                    patch_value = py_get mparams ''description''\<rparr>]]"
    by (simp add: patch_builder_def)
qed

lemma testify_patches:
  "create_patches
     (api_key_request [(''description'', PStr ''test_description''), (''value'', PStr ''test_value''),
        (''generate_distinct_id'', PBool False), (''enabled'', PBool True), (''state'', PStr ''present'')])
     testify_key =
   [\<lparr>patch_op = ''replace'', patch_path = ''/enabled'', patch_value = PStr ''True''\<rparr>,
    \<lparr>patch_op = ''replace'', patch_path = ''/description'', patch_value = PStr ''test_description''\<rparr>]"
  by (simp add: create_patches_def api_key_patch_def api_key_request_def testify_key_def py_get_def)

theorem patch_lists_hold_differing_fields_witness:
  "create_patches
     (api_key_request [(''description'', PStr ''test_description''), (''value'', PStr ''test_value''),
        (''generate_distinct_id'', PBool False), (''enabled'', PBool True), (''state'', PStr ''present'')])
     testify_key =
   [\<lparr>patch_op = ''replace'', patch_path = ''/enabled'', patch_value = PStr ''True''\<rparr>,
    \<lparr>patch_op = ''replace'', patch_path = ''/description'', patch_value = PStr ''test_description''\<rparr>] \<and>
   (\<exists>param v. (param = ''enabled'' \<or> param = ''description'') \<and>
      api_key_request [(''description'', PStr ''test_description''), (''value'', PStr ''test_value''),
        (''generate_distinct_id'', PBool False), (''enabled'', PBool True), (''state'', PStr ''present'')]
        param = Some v \<and> v \<noteq> PNone \<and>
      (testify_key param = None \<or> (\<exists>w. testify_key param = Some w \<and> py_str v \<noteq> py_str w)) \<and>
      \<lparr>patch_op = ''replace'', patch_path = ''/enabled'', patch_value = PStr ''True''\<rparr> =
      \<lparr>patch_op = ''replace'', patch_path = ''/'' @ param, patch_value = PStr (py_str v)\<rparr>) \<and>
   build_patch_args (Some dev_stage) (stage_request [(''description'', PStr ''new'')] []) =
     Inr (Some \<lparr>restApiId = PStr ''abc'', stageName = PStr ''dev'',
       patchOperations =
         [\<lparr>patch_op = ''replace'', patch_path = ''/description'', patch_value = PStr ''new''\<rparr>]\<rparr>) \<and>
   ((\<exists>a b v. (a, b) \<in> set arg_map \<and>
       scalars (stage_request [(''description'', PStr ''new'')] []) a = Some v \<and> v \<noteq> PNone \<and>
       (attrs dev_stage b = None \<or> (\<exists>w. attrs dev_stage b = Some w \<and> py_str v \<noteq> py_str w)) \<and>
       \<lparr>patch_op = ''replace'', patch_path = ''/description'', patch_value = PStr ''new''\<rparr> =
         create_patch b v) \<or>
    (\<exists>ms m key. method_settings (stage_request [(''description'', PStr ''new'')] []) = Some ms \<and>
       m \<in> set ms \<and> method_key m = Inr key \<and>
       ((case methodSettings dev_stage of None \<Rightarrow> Map.empty | Some held \<Rightarrow> held) key = None \<or>
        (\<exists>setting c. (case methodSettings dev_stage of None \<Rightarrow> Map.empty | Some held \<Rightarrow> held) key =
             Some setting \<and>
           setting ''cachingEnabled'' = Some c \<and>
           py_str c \<noteq> py_str (py_get_default m ''caching_enabled'' (PBool False)))) \<and>
       \<lparr>patch_op = ''replace'', patch_path = ''/description'', patch_value = PStr ''new''\<rparr> =
         create_patch (key @ ''/caching/enabled'')
           (py_get_default m ''caching_enabled'' (PBool False)))) \<and>
   pdf_model ''schema'' = Some (PStr ''{}'') \<and>
   py_get (model_request [(''schema'', PStr ''{new}''), (''description'', PStr ''a model'')]) ''schema''
     \<noteq> PStr ''{}'' \<and>
   snd (update_model (model_client_replying (Return pdf_model))
          (model_request [(''schema'', PStr ''{new}''), (''description'', PStr ''a model'')])
          pdf_model False []) =
     [UpdateModel (PStr ''abc'') (PStr ''Model'')
        [\<lparr>patch_op = ''replace'', patch_path = ''/schema'', patch_value = PStr ''{new}''\<rparr>,
         \<lparr>patch_op = ''replace'', patch_path = ''/description'', patch_value = PStr ''a model''\<rparr>]] \<and>
   update_model (model_client_replying (Return pdf_model))
       (model_request [(''schema'', PStr ''{}''), (''description'', PStr ''a model'')])
       pdf_model False [] = (Inr (False, None), [])"
proof -
  let ?kp = "api_key_request [(''description'', PStr ''test_description''), (''value'', PStr ''test_value''),
        (''generate_distinct_id'', PBool False), (''enabled'', PBool True), (''state'', PStr ''present'')]"
  let ?sp = "stage_request [(''description'', PStr ''new'')] []"
  let ?dop = "\<lparr>patch_op = ''replace'', patch_path = ''/description'', patch_value = PStr ''new''\<rparr>"
  let ?args = "\<lparr>restApiId = PStr ''abc'', stageName = PStr ''dev'', patchOperations = [?dop]\<rparr>"
  let ?mp = "model_request [(''schema'', PStr ''{new}''), (''description'', PStr ''a model'')]"
  let ?mn = "model_request [(''schema'', PStr ''{}''), (''description'', PStr ''a model'')]"
  let ?mcl = "model_client_replying (Return pdf_model)"
  note th = patch_lists_hold_differing_fields [of ?kp testify_key dev_stage ?sp pdf_model ?mp ?mcl False "[]"]
  note thn = patch_lists_hold_differing_fields [of ?kp testify_key dev_stage ?sp pdf_model ?mn ?mcl False "[]"]
  have mem: "\<lparr>patch_op = ''replace'', patch_path = ''/enabled'', patch_value = PStr ''True''\<rparr>
      \<in> set (create_patches ?kp testify_key)"
    by (simp add: testify_patches)
  from conjunct1 [OF th] mem
  have a: "\<exists>param v. (param = ''enabled'' \<or> param = ''description'') \<and>
      ?kp param = Some v \<and> v \<noteq> PNone \<and>
      (testify_key param = None \<or> (\<exists>w. testify_key param = Some w \<and> py_str v \<noteq> py_str w)) \<and>
      \<lparr>patch_op = ''replace'', patch_path = ''/enabled'', patch_value = PStr ''True''\<rparr> =
      \<lparr>patch_op = ''replace'', patch_path = ''/'' @ param, patch_value = PStr (py_str v)\<rparr>"
    by (rule bspec)
  have sb: "build_patch_args (Some dev_stage) ?sp = Inr (Some ?args)"
    by (simp add: build_patch_args_def stage_request_def dev_stage_def arg_map_def field_patch_def
        create_patch_def)
  have smem: "?dop \<in> set (patchOperations ?args)" by simp
  note st = mp [OF spec [OF conjunct1 [OF conjunct2 [OF th]], of ?args] sb]
  note b = bspec [OF st smem]
  have s: "pdf_model ''schema'' = Some (PStr ''{}'')" by (simp add: pdf_model_def)
  have d: "py_get ?mp ''schema'' \<noteq> PStr ''{}''" by (simp add: model_request_def py_get_def)
  from s d have mh: "pdf_model ''schema'' = Some (PStr ''{}'') \<and>
      (py_get ?mp ''schema'' \<noteq> PStr ''{}'' \<or>
       py_get pdf_model ''description'' \<noteq> py_get ?mp ''description'')"
    by simp
  note mt = mp [OF spec [OF conjunct2 [OF conjunct2 [OF conjunct2 [OF th]]], of "PStr ''{}''"] mh]
  from mt have m: "snd (update_model ?mcl ?mp pdf_model False []) =
     [UpdateModel (PStr ''abc'') (PStr ''Model'')
        [\<lparr>patch_op = ''replace'', patch_path = ''/schema'', patch_value = PStr ''{new}''\<rparr>,
         \<lparr>patch_op = ''replace'', patch_path = ''/description'', patch_value = PStr ''a model''\<rparr>]]"
    by (simp add: model_request_def py_get_def)
  have mhn: "pdf_model ''schema'' = Some (PStr ''{}'') \<and> py_get ?mn ''schema'' = PStr ''{}'' \<and>
      py_get pdf_model ''description'' = py_get ?mn ''description''"
    by (simp add: model_request_def pdf_model_def py_get_def)
  note n = mp [OF spec [OF conjunct1 [OF conjunct2 [OF conjunct2 [OF thn]]], of "PStr ''{}''"] mhn]
  from testify_patches a sb b s d m n show ?thesis by (intro conjI)
qed

theorem model_patches_equal_description:
  "py_get (model_request [(''schema'', PStr ''{new}''), (''description'', PStr ''a model''),
             (''state'', PStr ''present'')]) ''description'' = py_get pdf_model ''description'' \<and>
   model_request [(''schema'', PStr ''{new}''), (''description'', PStr ''a model''),
             (''state'', PStr ''present'')] ''content_type'' = None \<and>
   snd (model_process_request (model_client_replying (Return pdf_model))
          (model_request [(''schema'', PStr ''{new}''), (''description'', PStr ''a model''),
             (''state'', PStr ''present'')]) False) =
     [GetModel (PStr ''abc'') (PStr ''Model''),
      UpdateModel (PStr ''abc'') (PStr ''Model'')
        [\<lparr>patch_op = ''replace'', patch_path = ''/schema'', patch_value = PStr ''{new}''\<rparr>,
         \<lparr>patch_op = ''replace'', patch_path = ''/description'', patch_value = PStr ''a model''\<rparr>]]"
  by (simp add: model_process_request_def find_model_def model_client_replying_def model_request_def
      pdf_model_def update_model_def patch_builder_def py_get_def Let_def)

section \<open>The update path\<close>

text \<open>
  C3, as the code has it. With the state present and an object found, every module issues
  no update call and reports changed false when there is nothing to change, and issues
  one update call and reports changed true otherwise; under dry-run the call is skipped
  and changed is still true. The returned object differs by module. The api\_key module
  returns the observed key when nothing changes and under dry-run, and the key listed
  again after the update otherwise. The stage module returns the stage fetched again
  after the update, and null when nothing changes and under dry-run. The model module
  returns the response of the update call itself, and null when nothing changes and
  under dry-run.
\<close>

theorem update_path_results:
  "(retrieve_api_key kcl kparams [] = (Inr (Some me), ktr) \<and>
    py_get_default kparams ''state'' (PStr ''present'') = PStr ''present'' \<longrightarrow>
      (create_patches kparams me = [] \<longrightarrow>
         api_key_process_request kcl kparams check_mode =
           (Inr \<lparr>changed = False, obj = Some me\<rparr>, ktr)) \<and>
      (create_patches kparams me \<noteq> [] \<and> check_mode \<longrightarrow>
         api_key_process_request kcl kparams check_mode =
           (Inr \<lparr>changed = True, obj = Some me\<rparr>, ktr)) \<and>
      (\<forall>i u k tr2.
         create_patches kparams me \<noteq> [] \<and> \<not> check_mode \<and> me ''id'' = Some i \<and>
         client_update_api_key kcl ktr i (create_patches kparams me) = Return u \<and>
         retrieve_api_key kcl kparams (ktr @ [UpdateApiKey i (create_patches kparams me)]) = (Inr k, tr2) \<longrightarrow>
         api_key_process_request kcl kparams check_mode = (Inr \<lparr>changed = True, obj = k\<rparr>, tr2) \<and>
         (\<exists>nm. tr2 = ktr @ [UpdateApiKey i (create_patches kparams me), GetApiKeys nm]))) \<and>
   (find_stage scl sparams [] = (Inr (Some stg), str) \<and>
    py_get_default (scalars sparams) ''state'' (PStr ''present'') = PStr ''present'' \<longrightarrow>
      (build_patch_args (Some stg) sparams = Inr None \<longrightarrow>
         stage_process_request scl sparams check_mode =
           (Inr \<lparr>changed = False, obj = None\<rparr>, str)) \<and>
      (\<forall>args. build_patch_args (Some stg) sparams = Inr (Some args) \<and> check_mode \<longrightarrow>
         stage_process_request scl sparams check_mode =
           (Inr \<lparr>changed = True, obj = None\<rparr>, str)) \<and>
      (\<forall>args u s.
         build_patch_args (Some stg) sparams = Inr (Some args) \<and> \<not> check_mode \<and>
         client_update_stage scl str args = Return u \<and>
         client_get_stage scl (str @ [UpdateStage args]) (py_get (scalars sparams) ''rest_api_id'')
           (py_get (scalars sparams) ''name'') = Return s \<longrightarrow>
         stage_process_request scl sparams check_mode =
           (Inr \<lparr>changed = True, obj = Some s\<rparr>,
            str @ [UpdateStage args,
                   GetStage (py_get (scalars sparams) ''rest_api_id'')
                     (py_get (scalars sparams) ''name'')]))) \<and>
   (find_model mcl mparams [] = (Inr (Some model), mtr) \<and>
    py_get mparams ''state'' = PStr ''present'' \<and> model ''schema'' = Some schema \<longrightarrow>
      (py_get mparams ''schema'' = schema \<and>
       py_get model ''description'' = py_get mparams ''description'' \<longrightarrow>
         model_process_request mcl mparams check_mode =
           (Inr \<lparr>changed = False, obj = None\<rparr>, mtr)) \<and>
      ((py_get mparams ''schema'' \<noteq> schema \<or>
        py_get model ''description'' \<noteq> py_get mparams ''description'') \<and> check_mode \<longrightarrow>
         model_process_request mcl mparams check_mode =
           (Inr \<lparr>changed = True, obj = None\<rparr>, mtr)) \<and>
      (\<forall>r.
         (py_get mparams ''schema'' \<noteq> schema \<or>
          py_get model ''description'' \<noteq> py_get mparams ''description'') \<and> \<not> check_mode \<and>
         client_update_model mcl mtr (py_get mparams ''rest_api_id'') (py_get mparams ''name'')
           (patch_builder mparams) = Return r \<longrightarrow>
         model_process_request mcl mparams check_mode =
           (Inr \<lparr>changed = True, obj = Some r\<rparr>,
            mtr @ [UpdateModel (py_get mparams ''rest_api_id'') (py_get mparams ''name'')
                     (patch_builder mparams)])))"
proof (intro conjI)
  show "retrieve_api_key kcl kparams [] = (Inr (Some me), ktr) \<and>
    py_get_default kparams ''state'' (PStr ''present'') = PStr ''present'' \<longrightarrow>
      (create_patches kparams me = [] \<longrightarrow>
         api_key_process_request kcl kparams check_mode =
           (Inr \<lparr>changed = False, obj = Some me\<rparr>, ktr)) \<and>
      (create_patches kparams me \<noteq> [] \<and> check_mode \<longrightarrow>
         api_key_process_request kcl kparams check_mode =
           (Inr \<lparr>changed = True, obj = Some me\<rparr>, ktr)) \<and>
      (\<forall>i u k tr2.
         create_patches kparams me \<noteq> [] \<and> \<not> check_mode \<and> me ''id'' = Some i \<and>
         client_update_api_key kcl ktr i (create_patches kparams me) = Return u \<and>
         retrieve_api_key kcl kparams (ktr @ [UpdateApiKey i (create_patches kparams me)]) = (Inr k, tr2) \<longrightarrow>
         api_key_process_request kcl kparams check_mode = (Inr \<lparr>changed = True, obj = k\<rparr>, tr2) \<and>
         (\<exists>nm. tr2 = ktr @ [UpdateApiKey i (create_patches kparams me), GetApiKeys nm]))"
  proof (intro impI conjI allI)
    assume h: "retrieve_api_key kcl kparams [] = (Inr (Some me), ktr) \<and>
      py_get_default kparams ''state'' (PStr ''present'') = PStr ''present''"
    note disp = api_key_request_found_present [OF conjunct1 [OF h] conjunct2 [OF h]]
    show "api_key_process_request kcl kparams check_mode = (Inr \<lparr>changed = False, obj = Some me\<rparr>, ktr)"
      if "create_patches kparams me = []"
      by (simp add: disp update_api_key_noop [OF that])
    show "api_key_process_request kcl kparams check_mode = (Inr \<lparr>changed = True, obj = Some me\<rparr>, ktr)"
      if "create_patches kparams me \<noteq> [] \<and> check_mode"
      using that by (simp add: disp update_api_key_check_mode)
    fix i u k tr2
    assume a: "create_patches kparams me \<noteq> [] \<and> \<not> check_mode \<and> me ''id'' = Some i \<and>
         client_update_api_key kcl ktr i (create_patches kparams me) = Return u \<and>
         retrieve_api_key kcl kparams (ktr @ [UpdateApiKey i (create_patches kparams me)]) = (Inr k, tr2)"
    then have f: "check_mode = False" by simp
    from a have a1: "create_patches kparams me \<noteq> []" and a2: "me ''id'' = Some i"
      and a3: "client_update_api_key kcl ktr i (create_patches kparams me) = Return u"
      and a4: "retrieve_api_key kcl kparams (ktr @ [UpdateApiKey i (create_patches kparams me)]) = (Inr k, tr2)"
      by blast+
    have "update_api_key kcl kparams me False ktr = (Inr (True, k), tr2)"
      by (rule update_api_key_applied [OF a1 a2 a3 a4])
    then show "api_key_process_request kcl kparams check_mode = (Inr \<lparr>changed = True, obj = k\<rparr>, tr2)"
      by (simp add: disp f)
    from a retrieve_api_key_trace [of kcl kparams "ktr @ [UpdateApiKey i (create_patches kparams me)]" k tr2]
    show "\<exists>nm. tr2 = ktr @ [UpdateApiKey i (create_patches kparams me), GetApiKeys nm]"
      by auto
  qed
next
  show "find_stage scl sparams [] = (Inr (Some stg), str) \<and>
    py_get_default (scalars sparams) ''state'' (PStr ''present'') = PStr ''present'' \<longrightarrow>
      (build_patch_args (Some stg) sparams = Inr None \<longrightarrow>
         stage_process_request scl sparams check_mode =
           (Inr \<lparr>changed = False, obj = None\<rparr>, str)) \<and>
      (\<forall>args. build_patch_args (Some stg) sparams = Inr (Some args) \<and> check_mode \<longrightarrow>
         stage_process_request scl sparams check_mode =
           (Inr \<lparr>changed = True, obj = None\<rparr>, str)) \<and>
      (\<forall>args u s.
         build_patch_args (Some stg) sparams = Inr (Some args) \<and> \<not> check_mode \<and>
         client_update_stage scl str args = Return u \<and>
         client_get_stage scl (str @ [UpdateStage args]) (py_get (scalars sparams) ''rest_api_id'')
           (py_get (scalars sparams) ''name'') = Return s \<longrightarrow>
         stage_process_request scl sparams check_mode =
           (Inr \<lparr>changed = True, obj = Some s\<rparr>,
            str @ [UpdateStage args,
                   GetStage (py_get (scalars sparams) ''rest_api_id'')
                     (py_get (scalars sparams) ''name'')]))"
  proof (intro impI conjI allI)
    assume h: "find_stage scl sparams [] = (Inr (Some stg), str) \<and>
      py_get_default (scalars sparams) ''state'' (PStr ''present'') = PStr ''present''"
    note disp = stage_request_present [OF conjunct1 [OF h] conjunct2 [OF h]]
    show "stage_process_request scl sparams check_mode = (Inr \<lparr>changed = False, obj = None\<rparr>, str)"
      if "build_patch_args (Some stg) sparams = Inr None"
      by (simp add: disp update_stage_noop [OF that])
    show "stage_process_request scl sparams check_mode = (Inr \<lparr>changed = True, obj = None\<rparr>, str)"
      if "build_patch_args (Some stg) sparams = Inr (Some args) \<and> check_mode" for args
      using that by (simp add: disp update_stage_check_mode [of "Some stg" sparams args])
    fix args u s
    assume a: "build_patch_args (Some stg) sparams = Inr (Some args) \<and> \<not> check_mode \<and>
         client_update_stage scl str args = Return u \<and>
         client_get_stage scl (str @ [UpdateStage args]) (py_get (scalars sparams) ''rest_api_id'')
           (py_get (scalars sparams) ''name'') = Return s"
    then have f: "check_mode = False" by simp
    from a have a1: "build_patch_args (Some stg) sparams = Inr (Some args)"
      and a2: "client_update_stage scl str args = Return u"
      and a3: "client_get_stage scl (str @ [UpdateStage args]) (py_get (scalars sparams) ''rest_api_id'')
           (py_get (scalars sparams) ''name'') = Return s"
      by blast+
    have "update_stage scl (Some stg) sparams False str =
        (Inr (True, Some s),
         str @ [UpdateStage args,
                GetStage (py_get (scalars sparams) ''rest_api_id'') (py_get (scalars sparams) ''name'')])"
      by (rule update_stage_applied [OF a1 a2 a3])
    then show "stage_process_request scl sparams check_mode =
           (Inr \<lparr>changed = True, obj = Some s\<rparr>,
            str @ [UpdateStage args,
                   GetStage (py_get (scalars sparams) ''rest_api_id'')
                     (py_get (scalars sparams) ''name'')])"
      by (simp add: disp f)
  qed
next
  show "find_model mcl mparams [] = (Inr (Some model), mtr) \<and>
    py_get mparams ''state'' = PStr ''present'' \<and> model ''schema'' = Some schema \<longrightarrow>
      (py_get mparams ''schema'' = schema \<and>
       py_get model ''description'' = py_get mparams ''description'' \<longrightarrow>
         model_process_request mcl mparams check_mode =
           (Inr \<lparr>changed = False, obj = None\<rparr>, mtr)) \<and>
      ((py_get mparams ''schema'' \<noteq> schema \<or>
        py_get model ''description'' \<noteq> py_get mparams ''description'') \<and> check_mode \<longrightarrow>
         model_process_request mcl mparams check_mode =
           (Inr \<lparr>changed = True, obj = None\<rparr>, mtr)) \<and>
      (\<forall>r.
         (py_get mparams ''schema'' \<noteq> schema \<or>
          py_get model ''description'' \<noteq> py_get mparams ''description'') \<and> \<not> check_mode \<and>
         client_update_model mcl mtr (py_get mparams ''rest_api_id'') (py_get mparams ''name'')
           (patch_builder mparams) = Return r \<longrightarrow>
         model_process_request mcl mparams check_mode =
           (Inr \<lparr>changed = True, obj = Some r\<rparr>,
            mtr @ [UpdateModel (py_get mparams ''rest_api_id'') (py_get mparams ''name'')
                     (patch_builder mparams)]))"
  proof (intro impI conjI allI)
    assume h: "find_model mcl mparams [] = (Inr (Some model), mtr) \<and>
      py_get mparams ''state'' = PStr ''present'' \<and> model ''schema'' = Some schema"
    then have sc: "model ''schema'' = Some schema" by simp
    from h have fm: "find_model mcl mparams [] = (Inr (Some model), mtr)"
      and st: "py_get mparams ''state'' = PStr ''present''" by simp_all
    note disp = model_request_found_present [OF fm st]
    show "model_process_request mcl mparams check_mode = (Inr \<lparr>changed = False, obj = None\<rparr>, mtr)"
      if "py_get mparams ''schema'' = schema \<and>
        py_get model ''description'' = py_get mparams ''description''"
      using that by (simp add: disp update_model_noop [where model = model and schema = schema, OF sc])
    show "model_process_request mcl mparams check_mode = (Inr \<lparr>changed = True, obj = None\<rparr>, mtr)"
      if "(py_get mparams ''schema'' \<noteq> schema \<or>
        py_get model ''description'' \<noteq> py_get mparams ''description'') \<and> check_mode"
    proof -
      from that have t: "check_mode = True" by simp
      from that update_model_check_mode [where model = model and params = mparams, OF sc]
      have "update_model mcl mparams model True mtr = (Inr (True, None), mtr)" by blast
      then show ?thesis unfolding disp t by simp
    qed
    fix r
    assume a: "(py_get mparams ''schema'' \<noteq> schema \<or>
          py_get model ''description'' \<noteq> py_get mparams ''description'') \<and> \<not> check_mode \<and>
         client_update_model mcl mtr (py_get mparams ''rest_api_id'') (py_get mparams ''name'')
           (patch_builder mparams) = Return r"
    then have f: "check_mode = False" by simp
    from a update_model_applied [where model = model and params = mparams and cl = mcl and tr = mtr, OF sc]
    have "update_model mcl mparams model False mtr =
        (Inr (True, Some r),
         mtr @ [UpdateModel (py_get mparams ''rest_api_id'') (py_get mparams ''name'')
                  (patch_builder mparams)])"
      by blast
    then show "model_process_request mcl mparams check_mode =
           (Inr \<lparr>changed = True, obj = Some r\<rparr>,
            mtr @ [UpdateModel (py_get mparams ''rest_api_id'') (py_get mparams ''name'')
                     (patch_builder mparams)])"
      unfolding disp f by simp
  qed
qed

lemma match_items_single:
  "item ''name'' = Some nm \<Longrightarrow> match_items nm [item] None = Inr (Some item)"
  by simp

theorem update_path_results_witness:
  "retrieve_api_key (api_key_listing_client [testify_key] [testify_key_updated])
     (api_key_request [(''description'', PStr ''test_description''), (''value'', PStr ''test_value''),
        (''generate_distinct_id'', PBool False), (''enabled'', PBool True), (''state'', PStr ''present'')]) []
     = (Inr (Some testify_key), [GetApiKeys (PStr ''testify'')]) \<and>
   api_key_process_request (api_key_listing_client [testify_key] [testify_key_updated])
     (api_key_request [(''description'', PStr ''test_description''), (''value'', PStr ''test_value''),
        (''generate_distinct_id'', PBool False), (''enabled'', PBool True), (''state'', PStr ''present'')]) False
     = (Inr \<lparr>changed = True, obj = Some testify_key_updated\<rparr>,
        [GetApiKeys (PStr ''testify''),
         UpdateApiKey (PStr ''ab12345'')
           [\<lparr>patch_op = ''replace'', patch_path = ''/enabled'', patch_value = PStr ''True''\<rparr>,
            \<lparr>patch_op = ''replace'', patch_path = ''/description'',
              patch_value = PStr ''test_description''\<rparr>],
         GetApiKeys (PStr ''testify'')]) \<and>
   api_key_process_request (api_key_listing_client [testify_key] [testify_key_updated])
     (api_key_request [(''description'', PStr ''test_description''), (''value'', PStr ''test_value''),
        (''generate_distinct_id'', PBool False), (''enabled'', PBool True), (''state'', PStr ''present'')]) True
     = (Inr \<lparr>changed = True, obj = Some testify_key\<rparr>, [GetApiKeys (PStr ''testify'')]) \<and>
   api_key_process_request (api_key_listing_client [testify_key] [testify_key_updated])
     (api_key_request [(''enabled'', PBool False), (''state'', PStr ''present'')]) False
     = (Inr \<lparr>changed = False, obj = Some testify_key\<rparr>, [GetApiKeys (PStr ''testify'')]) \<and>
   find_stage (stage_found_client dev_stage) (stage_request [] []) [] =
     (Inr (Some dev_stage), [GetStage (PStr ''abc'') (PStr ''dev'')]) \<and>
   build_patch_args (Some dev_stage) (stage_request [] []) = Inr None \<and>
   stage_process_request (stage_found_client dev_stage) (stage_request [] []) False =
     (Inr \<lparr>changed = False, obj = None\<rparr>, [GetStage (PStr ''abc'') (PStr ''dev'')]) \<and>
   stage_process_request (stage_found_client dev_stage)
       (stage_request [(''description'', PStr ''new'')] []) True =
     (Inr \<lparr>changed = True, obj = None\<rparr>, [GetStage (PStr ''abc'') (PStr ''dev'')]) \<and>
   stage_process_request (stage_found_client dev_stage)
       (stage_request [(''description'', PStr ''new'')] []) False =
     (Inr \<lparr>changed = True, obj = Some dev_stage\<rparr>,
      [GetStage (PStr ''abc'') (PStr ''dev''),
       UpdateStage \<lparr>restApiId = PStr ''abc'', stageName = PStr ''dev'',
         patchOperations =
           [\<lparr>patch_op = ''replace'', patch_path = ''/description'', patch_value = PStr ''new''\<rparr>]\<rparr>,
       GetStage (PStr ''abc'') (PStr ''dev'')]) \<and>
   find_model (model_client_replying (Return pdf_model))
     (model_request [(''schema'', PStr ''{new}''), (''description'', PStr ''a model''),
        (''state'', PStr ''present'')]) [] =
     (Inr (Some pdf_model), [GetModel (PStr ''abc'') (PStr ''Model'')]) \<and>
   model_process_request (model_client_replying (Return pdf_model))
     (model_request [(''schema'', PStr ''{new}''), (''description'', PStr ''a model''),
        (''state'', PStr ''present'')]) True =
     (Inr \<lparr>changed = True, obj = None\<rparr>, [GetModel (PStr ''abc'') (PStr ''Model'')]) \<and>
   model_process_request (model_client_replying (Return pdf_model))
     (model_request [(''schema'', PStr ''{new}''), (''description'', PStr ''a model''),
        (''state'', PStr ''present'')]) False =
     (Inr \<lparr>changed = True,
           obj = Some [''name'' \<mapsto> PStr ''Model'', ''id'' \<mapsto> PStr ''some_model_id'']\<rparr>,
      [GetModel (PStr ''abc'') (PStr ''Model''),
       UpdateModel (PStr ''abc'') (PStr ''Model'')
         [\<lparr>patch_op = ''replace'', patch_path = ''/schema'', patch_value = PStr ''{new}''\<rparr>,
          \<lparr>patch_op = ''replace'', patch_path = ''/description'', patch_value = PStr ''a model''\<rparr>]]) \<and>
   model_process_request (model_client_replying (Return pdf_model))
     (model_request [(''schema'', PStr ''{}''), (''description'', PStr ''a model''),
        (''state'', PStr ''present'')]) False =
     (Inr \<lparr>changed = False, obj = None\<rparr>, [GetModel (PStr ''abc'') (PStr ''Model'')])"
proof -
  let ?kcl = "api_key_listing_client [testify_key] [testify_key_updated]"
  let ?kp = "api_key_request [(''description'', PStr ''test_description''), (''value'', PStr ''test_value''),
        (''generate_distinct_id'', PBool False), (''enabled'', PBool True), (''state'', PStr ''present'')]"
  let ?kn = "api_key_request [(''enabled'', PBool False), (''state'', PStr ''present'')]"
  let ?ktr = "[GetApiKeys (PStr ''testify'')]"
  let ?ps = "[\<lparr>patch_op = ''replace'', patch_path = ''/enabled'', patch_value = PStr ''True''\<rparr>,
            \<lparr>patch_op = ''replace'', patch_path = ''/description'',
              patch_value = PStr ''test_description''\<rparr>]"
  let ?scl = "stage_found_client dev_stage"
  let ?sn = "stage_request [] []"
  let ?sd = "stage_request [(''description'', PStr ''new'')] []"
  let ?str = "[GetStage (PStr ''abc'') (PStr ''dev'')]"
  let ?args = "\<lparr>restApiId = PStr ''abc'', stageName = PStr ''dev'',
         patchOperations =
           [\<lparr>patch_op = ''replace'', patch_path = ''/description'', patch_value = PStr ''new''\<rparr>]\<rparr>"
  let ?mcl = "model_client_replying (Return pdf_model)"
  let ?mp = "model_request [(''schema'', PStr ''{new}''), (''description'', PStr ''a model''),
        (''state'', PStr ''present'')]"
  let ?mn = "model_request [(''schema'', PStr ''{}''), (''description'', PStr ''a model''),
        (''state'', PStr ''present'')]"
  let ?mtr = "[GetModel (PStr ''abc'') (PStr ''Model'')]"
  have n1: "testify_key ''name'' = Some (PStr ''testify'')" by (simp add: testify_key_def)
  have n2: "testify_key_updated ''name'' = Some (PStr ''testify'')" by (simp add: testify_key_updated_def)
  have nmp: "?kp ''name'' = Some (PStr ''testify'')" by (simp add: api_key_request_def)
  have nmn: "?kn ''name'' = Some (PStr ''testify'')" by (simp add: api_key_request_def)
  have k1: "retrieve_api_key ?kcl ?kp [] = (Inr (Some testify_key), ?ktr)"
    by (simp add: retrieve_api_key_def nmp api_key_listing_client_def n1)
  have k1n: "retrieve_api_key ?kcl ?kn [] = (Inr (Some testify_key), ?ktr)"
    by (simp add: retrieve_api_key_def nmn api_key_listing_client_def n1)
  have k2: "py_get_default ?kp ''state'' (PStr ''present'') = PStr ''present''"
    by (simp add: api_key_request_def py_get_default_def)
  have k2n: "py_get_default ?kn ''state'' (PStr ''present'') = PStr ''present''"
    by (simp add: api_key_request_def py_get_default_def)
  have k3: "create_patches ?kp testify_key = ?ps" by (rule testify_patches)
  have k3n: "create_patches ?kn testify_key = []"
    by (simp add: create_patches_def api_key_patch_def api_key_request_def testify_key_def py_get_def)
  have k4: "testify_key ''id'' = Some (PStr ''ab12345'')" by (simp add: testify_key_def)
  have k5: "client_update_api_key ?kcl ?ktr (PStr ''ab12345'') ?ps = Return ()"
    by (simp add: api_key_listing_client_def)
  have k6: "retrieve_api_key ?kcl ?kp (?ktr @ [UpdateApiKey (PStr ''ab12345'') ?ps]) =
      (Inr (Some testify_key_updated),
       [GetApiKeys (PStr ''testify''), UpdateApiKey (PStr ''ab12345'') ?ps, GetApiKeys (PStr ''testify'')])"
    by (simp add: retrieve_api_key_def nmp api_key_listing_client_def n2)
  have s1: "find_stage ?scl ?sn [] = (Inr (Some dev_stage), ?str)"
    by (rule stage_found_client_find)
  have s1d: "find_stage ?scl ?sd [] = (Inr (Some dev_stage), ?str)"
    by (rule stage_found_client_find)
  have s2: "py_get_default (scalars ?sn) ''state'' (PStr ''present'') = PStr ''present''"
    by (simp add: stage_request_def py_get_default_def)
  have s2d: "py_get_default (scalars ?sd) ''state'' (PStr ''present'') = PStr ''present''"
    by (simp add: stage_request_def py_get_default_def)
  have s3: "build_patch_args (Some dev_stage) ?sn = Inr None"
    by (simp add: build_patch_args_def stage_request_def dev_stage_def arg_map_def field_patch_def)
  have s3d: "build_patch_args (Some dev_stage) ?sd = Inr (Some ?args)"
    by (simp add: build_patch_args_def stage_request_def dev_stage_def arg_map_def field_patch_def
        create_patch_def)
  have s4: "client_update_stage ?scl ?str ?args = Return ()" by (simp add: stage_found_client_def)
  have s5: "py_get (scalars ?sd) ''rest_api_id'' = PStr ''abc''" "py_get (scalars ?sd) ''name'' = PStr ''dev''"
    by (simp_all add: stage_request_def py_get_def)
  have s6: "client_get_stage ?scl (?str @ [UpdateStage ?args]) (py_get (scalars ?sd) ''rest_api_id'')
      (py_get (scalars ?sd) ''name'') = Return dev_stage"
    by (simp add: stage_found_client_def)
  have m1: "find_model ?mcl ?mp [] = (Inr (Some pdf_model), ?mtr)"
    by (simp add: find_model_def model_client_replying_def model_request_def py_get_def)
  have m1n: "find_model ?mcl ?mn [] = (Inr (Some pdf_model), ?mtr)"
    by (simp add: find_model_def model_client_replying_def model_request_def py_get_def)
  have m2: "py_get ?mp ''state'' = PStr ''present''" by (simp add: model_request_def py_get_def)
  have m2n: "py_get ?mn ''state'' = PStr ''present''" by (simp add: model_request_def py_get_def)
  have m3: "pdf_model ''schema'' = Some (PStr ''{}'')" by (simp add: pdf_model_def)
  have m4: "py_get ?mp ''schema'' \<noteq> PStr ''{}'' \<or>
      py_get pdf_model ''description'' \<noteq> py_get ?mp ''description''"
    by (simp add: model_request_def py_get_def)
  have m4n: "py_get ?mn ''schema'' = PStr ''{}'' \<and>
      py_get pdf_model ''description'' = py_get ?mn ''description''"
    by (simp add: model_request_def pdf_model_def py_get_def)
  have m5: "py_get ?mp ''rest_api_id'' = PStr ''abc''" "py_get ?mp ''name'' = PStr ''Model''"
    by (simp_all add: model_request_def py_get_def)
  have m6: "patch_builder ?mp =
      [\<lparr>patch_op = ''replace'', patch_path = ''/schema'', patch_value = PStr ''{new}''\<rparr>,
       \<lparr>patch_op = ''replace'', patch_path = ''/description'', patch_value = PStr ''a model''\<rparr>]"
    by (simp add: patch_builder_def model_request_def py_get_def)
  have m7: "client_update_model ?mcl ?mtr (py_get ?mp ''rest_api_id'') (py_get ?mp ''name'')
      (patch_builder ?mp) = Return [''name'' \<mapsto> PStr ''Model'', ''id'' \<mapsto> PStr ''some_model_id'']"
    by (simp add: model_client_replying_def m5)
  from k1 k2 have kh: "retrieve_api_key ?kcl ?kp [] = (Inr (Some testify_key), ?ktr) \<and>
      py_get_default ?kp ''state'' (PStr ''present'') = PStr ''present''" by (intro conjI)
  from k1n k2n have khn: "retrieve_api_key ?kcl ?kn [] = (Inr (Some testify_key), ?ktr) \<and>
      py_get_default ?kn ''state'' (PStr ''present'') = PStr ''present''" by (intro conjI)
  from s1 s2 have sh: "find_stage ?scl ?sn [] = (Inr (Some dev_stage), ?str) \<and>
      py_get_default (scalars ?sn) ''state'' (PStr ''present'') = PStr ''present''" by (intro conjI)
  from s1d s2d have shd: "find_stage ?scl ?sd [] = (Inr (Some dev_stage), ?str) \<and>
      py_get_default (scalars ?sd) ''state'' (PStr ''present'') = PStr ''present''" by (intro conjI)
  from m1 m2 m3 have mh: "find_model ?mcl ?mp [] = (Inr (Some pdf_model), ?mtr) \<and>
      py_get ?mp ''state'' = PStr ''present'' \<and> pdf_model ''schema'' = Some (PStr ''{}'')"
    by (intro conjI)
  from m1n m2n m3 have mhn: "find_model ?mcl ?mn [] = (Inr (Some pdf_model), ?mtr) \<and>
      py_get ?mn ''state'' = PStr ''present'' \<and> pdf_model ''schema'' = Some (PStr ''{}'')"
    by (intro conjI)
  note kF = mp [OF conjunct1 [OF update_path_results [of ?kcl ?kp testify_key ?ktr False]] kh]
  note kT = mp [OF conjunct1 [OF update_path_results [of ?kcl ?kp testify_key ?ktr True]] kh]
  note kN = mp [OF conjunct1 [OF update_path_results [of ?kcl ?kn testify_key ?ktr False]] khn]
  note sN = mp [OF conjunct1 [OF conjunct2
      [OF update_path_results [of _ _ _ _ False ?scl ?sn dev_stage ?str]]] sh]
  note sT = mp [OF conjunct1 [OF conjunct2
      [OF update_path_results [of _ _ _ _ True ?scl ?sd dev_stage ?str]]] shd]
  note sF = mp [OF conjunct1 [OF conjunct2
      [OF update_path_results [of _ _ _ _ False ?scl ?sd dev_stage ?str]]] shd]
  note mT = mp [OF conjunct2 [OF conjunct2
      [OF update_path_results [of _ _ _ _ True _ _ _ _ ?mcl ?mp pdf_model ?mtr "PStr ''{}''"]]] mh]
  note mF = mp [OF conjunct2 [OF conjunct2
      [OF update_path_results [of _ _ _ _ False _ _ _ _ ?mcl ?mp pdf_model ?mtr "PStr ''{}''"]]] mh]
  note mN = mp [OF conjunct2 [OF conjunct2
      [OF update_path_results [of _ _ _ _ False _ _ _ _ ?mcl ?mn pdf_model ?mtr "PStr ''{}''"]]] mhn]
  from kF k3 k4 k5 k6
  have a1: "api_key_process_request ?kcl ?kp False =
      (Inr \<lparr>changed = True, obj = Some testify_key_updated\<rparr>,
       [GetApiKeys (PStr ''testify''), UpdateApiKey (PStr ''ab12345'') ?ps, GetApiKeys (PStr ''testify'')])"
    by (simp add: k3)
  from kT k3
  have a2: "api_key_process_request ?kcl ?kp True = (Inr \<lparr>changed = True, obj = Some testify_key\<rparr>, ?ktr)"
    by simp
  from kN k3n
  have a3: "api_key_process_request ?kcl ?kn False = (Inr \<lparr>changed = False, obj = Some testify_key\<rparr>, ?ktr)"
    by simp
  from sN s3
  have b1: "stage_process_request ?scl ?sn False = (Inr \<lparr>changed = False, obj = None\<rparr>, ?str)"
    by simp
  from sT s3d
  have b2: "stage_process_request ?scl ?sd True = (Inr \<lparr>changed = True, obj = None\<rparr>, ?str)"
    by simp
  from sF s3d s4 s6
  have b3: "stage_process_request ?scl ?sd False =
     (Inr \<lparr>changed = True, obj = Some dev_stage\<rparr>,
      [GetStage (PStr ''abc'') (PStr ''dev''), UpdateStage ?args, GetStage (PStr ''abc'') (PStr ''dev'')])"
    by (simp add: s5)
  from mT m4
  have c1: "model_process_request ?mcl ?mp True = (Inr \<lparr>changed = True, obj = None\<rparr>, ?mtr)"
    by fast
  from mF m4 m7
  have c2: "model_process_request ?mcl ?mp False =
     (Inr \<lparr>changed = True,
           obj = Some [''name'' \<mapsto> PStr ''Model'', ''id'' \<mapsto> PStr ''some_model_id'']\<rparr>,
      ?mtr @ [UpdateModel (py_get ?mp ''rest_api_id'') (py_get ?mp ''name'') (patch_builder ?mp)])"
    by fast
  from mN m4n
  have c3: "model_process_request ?mcl ?mn False = (Inr \<lparr>changed = False, obj = None\<rparr>, ?mtr)"
    by fast
  note c2' = c2 [unfolded m5 m6 append.simps]
  from k1 a1 a2 a3 s1 s3 b1 b2 b3 m1 c1 c2' c3 show ?thesis by (intro conjI)
qed

theorem stage_and_model_updates_return_null:
  "build_patch_args (Some dev_stage) (stage_request [] []) = Inr None \<and>
   stage_process_request (stage_found_client dev_stage) (stage_request [] []) False =
     (Inr \<lparr>changed = False, obj = None\<rparr>, [GetStage (PStr ''abc'') (PStr ''dev'')]) \<and>
   obj \<lparr>changed = False, obj = None\<rparr> \<noteq> Some dev_stage \<and>
   stage_process_request (stage_found_client dev_stage)
       (stage_request [(''description'', PStr ''new'')] []) True =
     (Inr \<lparr>changed = True, obj = None\<rparr>, [GetStage (PStr ''abc'') (PStr ''dev'')]) \<and>
   model_process_request (model_client_replying (Return pdf_model))
     (model_request [(''schema'', PStr ''{}''), (''description'', PStr ''a model''),
        (''state'', PStr ''present'')]) False =
     (Inr \<lparr>changed = False, obj = None\<rparr>, [GetModel (PStr ''abc'') (PStr ''Model'')])"
  by (simp add: build_patch_args_def stage_request_def dev_stage_def arg_map_def field_patch_def
      create_patch_def stage_process_request_def find_stage_def stage_found_client_def
      update_stage_def py_get_def py_get_default_def model_process_request_def find_model_def
      model_client_replying_def model_request_def pdf_model_def update_model_def Let_def)

section \<open>The create path\<close>

lemma find_model_trace:
  "snd (find_model cl params tr) =
     tr @ [GetModel (py_get params ''rest_api_id'') (py_get params ''name'')]"
  by (simp add: find_model_def Let_def split: reply.splits exn.splits)

text \<open>
  C6, as the code has it. With the state present and nothing found, and without dry-run,
  each module issues exactly one create call and reports changed true when the call
  returns (a failing call aborts the invocation); under dry-run it issues no call and
  reports changed true with a null object. The api\_key module passes name, enabled and
  generateDistinctId always, and description and value only when the supplied value is
  neither \<open>None\<close> nor the empty string. The model module passes restApiId, name,
  contentType, schema and description always, each with the supplied value as it is:
  \<open>None\<close> for a field that was not supplied, the empty string for an empty one.
\<close>

theorem create_path_arguments:
  "(retrieve_api_key kcl kparams [] = (Inr None, ktr) \<and>
    py_get_default kparams ''state'' (PStr ''present'') = PStr ''present'' \<and>
    kparams ''name'' = Some nm \<longrightarrow>
      (check_mode \<longrightarrow>
         api_key_process_request kcl kparams check_mode =
           (Inr \<lparr>changed = True, obj = None\<rparr>, ktr)) \<and>
      (\<not> check_mode \<longrightarrow>
         (\<exists>out. api_key_process_request kcl kparams check_mode =
                  (out, ktr @ [CreateApiKey (create_api_key_args kparams nm)]) \<and>
            (\<forall>r. out = Inr r \<longrightarrow> changed r) \<and>
            (\<forall>k. client_create_api_key kcl ktr (create_api_key_args kparams nm) = Return k \<longrightarrow>
               out = Inr \<lparr>changed = True, obj = Some k\<rparr>))) \<and>
      take 3 (create_api_key_args kparams nm) =
        [(''name'', nm),
         (''enabled'', py_get_default kparams ''enabled'' (PBool False)),
         (''generateDistinctId'', py_get_default kparams ''generate_distinct_id'' (PBool False))] \<and>
      (\<forall>f v. (f, v) \<in> set (drop 3 (create_api_key_args kparams nm)) \<longleftrightarrow>
         (f = ''description'' \<or> f = ''value'') \<and> kparams f = Some v \<and>
         v \<noteq> PNone \<and> v \<noteq> PStr '''')) \<and>
   (find_model mcl mparams [] = (Inr None, mtr) \<and>
    py_get mparams ''state'' = PStr ''present'' \<longrightarrow>
      (check_mode \<longrightarrow>
         model_process_request mcl mparams check_mode =
           (Inr \<lparr>changed = True, obj = None\<rparr>, mtr)) \<and>
      (\<not> check_mode \<longrightarrow>
         (\<exists>out. model_process_request mcl mparams check_mode =
                  (out, mtr @ [CreateModel
                     [(''restApiId'', py_get mparams ''rest_api_id''),
                      (''name'', py_get mparams ''name''),
                      (''contentType'', py_get mparams ''content_type''),
                      (''schema'', py_get mparams ''schema''),
                      (''description'', py_get mparams ''description'')]]) \<and>
            (\<forall>r. out = Inr r \<longrightarrow> changed r) \<and>
            (\<forall>k. client_create_model mcl mtr (create_model_args mparams) = Return k \<longrightarrow>
               out = Inr \<lparr>changed = True, obj = Some k\<rparr>))))"
proof (intro conjI)
  show "retrieve_api_key kcl kparams [] = (Inr None, ktr) \<and>
    py_get_default kparams ''state'' (PStr ''present'') = PStr ''present'' \<and>
    kparams ''name'' = Some nm \<longrightarrow>
      (check_mode \<longrightarrow>
         api_key_process_request kcl kparams check_mode =
           (Inr \<lparr>changed = True, obj = None\<rparr>, ktr)) \<and>
      (\<not> check_mode \<longrightarrow>
         (\<exists>out. api_key_process_request kcl kparams check_mode =
                  (out, ktr @ [CreateApiKey (create_api_key_args kparams nm)]) \<and>
            (\<forall>r. out = Inr r \<longrightarrow> changed r) \<and>
            (\<forall>k. client_create_api_key kcl ktr (create_api_key_args kparams nm) = Return k \<longrightarrow>
               out = Inr \<lparr>changed = True, obj = Some k\<rparr>))) \<and>
      take 3 (create_api_key_args kparams nm) =
        [(''name'', nm),
         (''enabled'', py_get_default kparams ''enabled'' (PBool False)),
         (''generateDistinctId'', py_get_default kparams ''generate_distinct_id'' (PBool False))] \<and>
      (\<forall>f v. (f, v) \<in> set (drop 3 (create_api_key_args kparams nm)) \<longleftrightarrow>
         (f = ''description'' \<or> f = ''value'') \<and> kparams f = Some v \<and>
         v \<noteq> PNone \<and> v \<noteq> PStr '''')"
  proof (intro impI conjI allI)
    assume h: "retrieve_api_key kcl kparams [] = (Inr None, ktr) \<and>
      py_get_default kparams ''state'' (PStr ''present'') = PStr ''present'' \<and>
      kparams ''name'' = Some nm"
    then have r: "retrieve_api_key kcl kparams [] = (Inr None, ktr)"
      and st: "py_get_default kparams ''state'' (PStr ''present'') = PStr ''present''"
      and n: "kparams ''name'' = Some nm" by simp_all
    note disp = api_key_request_missing_present [OF r st]
    show "api_key_process_request kcl kparams check_mode = (Inr \<lparr>changed = True, obj = None\<rparr>, ktr)"
      if check_mode
    proof -
      from that have t: "check_mode = True" by simp
      show ?thesis unfolding disp t by (simp add: create_api_key_check_mode)
    qed
    show "\<exists>out. api_key_process_request kcl kparams check_mode =
                  (out, ktr @ [CreateApiKey (create_api_key_args kparams nm)]) \<and>
            (\<forall>r. out = Inr r \<longrightarrow> changed r) \<and>
            (\<forall>k. client_create_api_key kcl ktr (create_api_key_args kparams nm) = Return k \<longrightarrow>
               out = Inr \<lparr>changed = True, obj = Some k\<rparr>)"
      if "\<not> check_mode"
    proof -
      from that have f: "check_mode = False" by simp
      from create_api_key_issues_call [where params = kparams and cl = kcl and tr = ktr, OF n]
      obtain out where
        c: "create_api_key kcl kparams False ktr = (out, ktr @ [CreateApiKey (create_api_key_args kparams nm)])"
        and ch: "\<forall>c k. out = Inr (c, k) \<longrightarrow> c"
        and ok: "\<forall>k. client_create_api_key kcl ktr (create_api_key_args kparams nm) = Return k \<longrightarrow>
            out = Inr (True, Some k)"
        by blast
      show ?thesis
        unfolding disp f c using ch ok by (cases out) auto
    qed
    show "take 3 (create_api_key_args kparams nm) =
        [(''name'', nm),
         (''enabled'', py_get_default kparams ''enabled'' (PBool False)),
         (''generateDistinctId'', py_get_default kparams ''generate_distinct_id'' (PBool False))]"
      by (rule create_api_key_args_shape(1))
    show "(f, v) \<in> set (drop 3 (create_api_key_args kparams nm)) \<longleftrightarrow>
         (f = ''description'' \<or> f = ''value'') \<and> kparams f = Some v \<and>
         v \<noteq> PNone \<and> v \<noteq> PStr ''''" for f v
      by (rule create_api_key_args_shape(2))
  qed
next
  show "find_model mcl mparams [] = (Inr None, mtr) \<and>
    py_get mparams ''state'' = PStr ''present'' \<longrightarrow>
      (check_mode \<longrightarrow>
         model_process_request mcl mparams check_mode =
           (Inr \<lparr>changed = True, obj = None\<rparr>, mtr)) \<and>
      (\<not> check_mode \<longrightarrow>
         (\<exists>out. model_process_request mcl mparams check_mode =
                  (out, mtr @ [CreateModel
                     [(''restApiId'', py_get mparams ''rest_api_id''),
                      (''name'', py_get mparams ''name''),
                      (''contentType'', py_get mparams ''content_type''),
                      (''schema'', py_get mparams ''schema''),
                      (''description'', py_get mparams ''description'')]]) \<and>
            (\<forall>r. out = Inr r \<longrightarrow> changed r) \<and>
            (\<forall>k. client_create_model mcl mtr (create_model_args mparams) = Return k \<longrightarrow>
               out = Inr \<lparr>changed = True, obj = Some k\<rparr>)))"
  proof (intro impI conjI)
    assume h: "find_model mcl mparams [] = (Inr None, mtr) \<and>
      py_get mparams ''state'' = PStr ''present''"
    then have r: "find_model mcl mparams [] = (Inr None, mtr)"
      and st: "py_get mparams ''state'' = PStr ''present''" by simp_all
    note disp = model_request_missing_present [OF r st]
    show "model_process_request mcl mparams check_mode = (Inr \<lparr>changed = True, obj = None\<rparr>, mtr)"
      if check_mode
    proof -
      from that have t: "check_mode = True" by simp
      show ?thesis unfolding disp t by (simp add: create_model_check_mode)
    qed
    show "\<exists>out. model_process_request mcl mparams check_mode =
                  (out, mtr @ [CreateModel
                     [(''restApiId'', py_get mparams ''rest_api_id''),
                      (''name'', py_get mparams ''name''),
                      (''contentType'', py_get mparams ''content_type''),
                      (''schema'', py_get mparams ''schema''),
                      (''description'', py_get mparams ''description'')]]) \<and>
            (\<forall>r. out = Inr r \<longrightarrow> changed r) \<and>
            (\<forall>k. client_create_model mcl mtr (create_model_args mparams) = Return k \<longrightarrow>
               out = Inr \<lparr>changed = True, obj = Some k\<rparr>)"
      if "\<not> check_mode"
    proof -
      from that have f: "check_mode = False" by simp
      from create_model_issues_call [of mcl mparams mtr] obtain out where
        c: "create_model mcl mparams False mtr = (out, mtr @ [CreateModel (create_model_args mparams)])"
        and ch: "\<forall>c r. out = Inr (c, r) \<longrightarrow> c"
        and ok: "\<forall>r. client_create_model mcl mtr (create_model_args mparams) = Return r \<longrightarrow>
            out = Inr (True, Some r)"
        by blast
      have args: "create_model_args mparams =
          [(''restApiId'', py_get mparams ''rest_api_id''),
           (''name'', py_get mparams ''name''),
           (''contentType'', py_get mparams ''content_type''),
           (''schema'', py_get mparams ''schema''),
           (''description'', py_get mparams ''description'')]"
        by (simp add: create_model_args_def)
      show ?thesis
        unfolding disp f c using ch ok by (cases out) (auto simp: args)
    qed
  qed
qed

theorem create_path_arguments_witness:
  "retrieve_api_key (api_key_listing_client [] [])
     (api_key_request [(''description'', PStr ''''), (''value'', PStr ''test_value''),
        (''enabled'', PBool True), (''state'', PStr ''present'')]) []
     = (Inr None, [GetApiKeys (PStr ''testify'')]) \<and>
   create_api_key_args
     (api_key_request [(''description'', PStr ''''), (''value'', PStr ''test_value''),
        (''enabled'', PBool True), (''state'', PStr ''present'')]) (PStr ''testify'') =
     [(''name'', PStr ''testify''), (''enabled'', PBool True), (''generateDistinctId'', PBool False),
      (''value'', PStr ''test_value'')] \<and>
   api_key_process_request (api_key_listing_client [] [])
      (api_key_request [(''description'', PStr ''''), (''value'', PStr ''test_value''),
        (''enabled'', PBool True), (''state'', PStr ''present'')]) False =
      (Inr \<lparr>changed = True,
            obj = Some (map_of [(''name'', PStr ''testify''), (''enabled'', PBool True),
                    (''generateDistinctId'', PBool False), (''value'', PStr ''test_value'')])\<rparr>,
       [GetApiKeys (PStr ''testify''),
        CreateApiKey [(''name'', PStr ''testify''), (''enabled'', PBool True),
           (''generateDistinctId'', PBool False), (''value'', PStr ''test_value'')]]) \<and>
   api_key_process_request (api_key_listing_client [] [])
      (api_key_request [(''description'', PStr ''''), (''value'', PStr ''test_value''),
        (''enabled'', PBool True), (''state'', PStr ''present'')]) True =
      (Inr \<lparr>changed = True, obj = None\<rparr>, [GetApiKeys (PStr ''testify'')]) \<and>
   find_model (model_client_replying (Raise access_denied))
     (model_request [(''content_type'', PStr ''application/pdf''), (''schema'', PStr ''{}''),
        (''description'', PStr ''''), (''state'', PStr ''present'')]) [] =
     (Inr None, [GetModel (PStr ''abc'') (PStr ''Model'')]) \<and>
   model_process_request (model_client_replying (Raise access_denied))
     (model_request [(''content_type'', PStr ''application/pdf''), (''schema'', PStr ''{}''),
        (''description'', PStr ''''), (''state'', PStr ''present'')]) True =
     (Inr \<lparr>changed = True, obj = None\<rparr>, [GetModel (PStr ''abc'') (PStr ''Model'')]) \<and>
   (\<exists>out. model_process_request (model_client_replying (Raise access_denied))
     (model_request [(''content_type'', PStr ''application/pdf''), (''schema'', PStr ''{}''),
        (''description'', PStr ''''), (''state'', PStr ''present'')]) False =
     (out, [GetModel (PStr ''abc'') (PStr ''Model''),
            CreateModel [(''restApiId'', PStr ''abc''), (''name'', PStr ''Model''),
              (''contentType'', PStr ''application/pdf''), (''schema'', PStr ''{}''),
              (''description'', PStr '''')]]))"
proof -
  let ?kcl = "api_key_listing_client [] []"
  let ?kp = "api_key_request [(''description'', PStr ''''), (''value'', PStr ''test_value''),
        (''enabled'', PBool True), (''state'', PStr ''present'')]"
  let ?kargs = "[(''name'', PStr ''testify''), (''enabled'', PBool True),
      (''generateDistinctId'', PBool False), (''value'', PStr ''test_value'')]"
  let ?mcl = "model_client_replying (Raise access_denied)"
  let ?mp = "model_request [(''content_type'', PStr ''application/pdf''), (''schema'', PStr ''{}''),
        (''description'', PStr ''''), (''state'', PStr ''present'')]"
  have nm: "?kp ''name'' = Some (PStr ''testify'')" by (simp add: api_key_request_def)
  have k1: "retrieve_api_key ?kcl ?kp [] = (Inr None, [GetApiKeys (PStr ''testify'')])"
    by (simp add: retrieve_api_key_def nm api_key_listing_client_def)
  have k2: "py_get_default ?kp ''state'' (PStr ''present'') = PStr ''present''"
    by (simp add: api_key_request_def py_get_default_def)
  have k3: "create_api_key_args ?kp (PStr ''testify'') = ?kargs"
    by (simp add: create_api_key_args_def opt_field_args_def api_key_request_def py_get_def
        py_get_default_def)
  have k4: "client_create_api_key ?kcl [GetApiKeys (PStr ''testify'')] ?kargs = Return (map_of ?kargs)"
    by (simp only: api_key_listing_client_def api_key_client.simps)
  have m1: "find_model ?mcl ?mp [] = (Inr None, [GetModel (PStr ''abc'') (PStr ''Model'')])"
    by (simp add: find_model_def model_client_replying_def access_denied_def model_request_def py_get_def)
  have m2: "py_get ?mp ''state'' = PStr ''present''" by (simp add: model_request_def py_get_def)
  have m3: "py_get ?mp ''rest_api_id'' = PStr ''abc''" "py_get ?mp ''name'' = PStr ''Model''"
    "py_get ?mp ''content_type'' = PStr ''application/pdf''" "py_get ?mp ''schema'' = PStr ''{}''"
    "py_get ?mp ''description'' = PStr ''''"
    by (simp_all add: model_request_def py_get_def)
  from k1 k2 nm have kh: "retrieve_api_key ?kcl ?kp [] = (Inr None, [GetApiKeys (PStr ''testify'')]) \<and>
      py_get_default ?kp ''state'' (PStr ''present'') = PStr ''present'' \<and>
      ?kp ''name'' = Some (PStr ''testify'')"
    by (intro conjI)
  from m1 m2 have mh: "find_model ?mcl ?mp [] = (Inr None, [GetModel (PStr ''abc'') (PStr ''Model'')]) \<and>
      py_get ?mp ''state'' = PStr ''present''"
    by (intro conjI)
  note kF = mp [OF conjunct1 [OF create_path_arguments
      [of ?kcl ?kp "[GetApiKeys (PStr ''testify'')]" "PStr ''testify''" False]] kh]
  note kT = mp [OF conjunct1 [OF create_path_arguments
      [of ?kcl ?kp "[GetApiKeys (PStr ''testify'')]" "PStr ''testify''" True]] kh]
  note mT = mp [OF conjunct2 [OF create_path_arguments
      [of _ _ _ _ True ?mcl ?mp "[GetModel (PStr ''abc'') (PStr ''Model'')]"]] mh]
  note mF = mp [OF conjunct2 [OF create_path_arguments
      [of _ _ _ _ False ?mcl ?mp "[GetModel (PStr ''abc'') (PStr ''Model'')]"]] mh]
  from conjunct1 [OF conjunct2 [OF kF]]
  obtain out where o1: "api_key_process_request ?kcl ?kp False =
      (out, [GetApiKeys (PStr ''testify'')] @ [CreateApiKey (create_api_key_args ?kp (PStr ''testify''))])"
    and o2: "\<forall>k. client_create_api_key ?kcl [GetApiKeys (PStr ''testify'')]
        (create_api_key_args ?kp (PStr ''testify'')) = Return k \<longrightarrow>
        out = Inr \<lparr>changed = True, obj = Some k\<rparr>"
    by fast
  from o2 k4 have "out = Inr \<lparr>changed = True, obj = Some (map_of ?kargs)\<rparr>"
    unfolding k3 by fast
  with o1 have a: "api_key_process_request ?kcl ?kp False =
      (Inr \<lparr>changed = True, obj = Some (map_of ?kargs)\<rparr>,
       [GetApiKeys (PStr ''testify''), CreateApiKey ?kargs])"
    unfolding k3 by simp
  from conjunct1 [OF kT]
  have a2: "api_key_process_request ?kcl ?kp True =
      (Inr \<lparr>changed = True, obj = None\<rparr>, [GetApiKeys (PStr ''testify'')])"
    by fast
  from conjunct1 [OF mT]
  have b: "model_process_request ?mcl ?mp True =
     (Inr \<lparr>changed = True, obj = None\<rparr>, [GetModel (PStr ''abc'') (PStr ''Model'')])"
    by fast
  from conjunct2 [OF mF]
  have "\<exists>out. model_process_request ?mcl ?mp False =
     (out, [GetModel (PStr ''abc'') (PStr ''Model'')] @
        [CreateModel [(''restApiId'', py_get ?mp ''rest_api_id''), (''name'', py_get ?mp ''name''),
           (''contentType'', py_get ?mp ''content_type''), (''schema'', py_get ?mp ''schema''),
           (''description'', py_get ?mp ''description'')]])"
    by fast
  then have c: "\<exists>out. model_process_request ?mcl ?mp False =
     (out, [GetModel (PStr ''abc'') (PStr ''Model''),
            CreateModel [(''restApiId'', PStr ''abc''), (''name'', PStr ''Model''),
              (''contentType'', PStr ''application/pdf''), (''schema'', PStr ''{}''),
              (''description'', PStr '''')]])"
    unfolding m3 by simp
  from k1 k3 a a2 m1 b c show ?thesis by (intro conjI)
qed

theorem model_create_passes_empty_fields:
  "model_request [(''schema'', PStr ''{}''), (''description'', PStr ''''), (''state'', PStr ''present'')]
     ''content_type'' = None \<and>
   model_process_request (model_client_replying (Raise access_denied))
     (model_request [(''schema'', PStr ''{}''), (''description'', PStr ''''),
        (''state'', PStr ''present'')]) False =
     (Inr \<lparr>changed = True,
           obj = Some (map_of [(''restApiId'', PStr ''abc''), (''name'', PStr ''Model''),
                   (''contentType'', PNone), (''schema'', PStr ''{}''), (''description'', PStr '''')])\<rparr>,
      [GetModel (PStr ''abc'') (PStr ''Model''),
       CreateModel [(''restApiId'', PStr ''abc''), (''name'', PStr ''Model''),
         (''contentType'', PNone), (''schema'', PStr ''{}''), (''description'', PStr '''')]])"
  by (simp add: model_process_request_def find_model_def model_client_replying_def access_denied_def
      model_request_def create_model_def create_model_args_def py_get_def Let_def)

section \<open>Dry-run\<close>

lemma retrieve_api_key_only_lists:
  "retrieve_api_key cl params [] = (out, tr) \<Longrightarrow> \<forall>c \<in> set tr. \<exists>nm. c = GetApiKeys nm"
  using retrieve_api_key_calls [of cl params "[]"] by auto

lemma api_key_dry_run_keeps_changed:
  assumes run: "api_key_process_request cl params False = (Inr r, tr)"
  shows "\<exists>r' tr'. api_key_process_request cl params True = (Inr r', tr') \<and>
           changed r' = changed r \<and> (\<forall>c \<in> set tr'. \<exists>nm. c = GetApiKeys nm)"
proof -
  obtain out tr0 where ret: "retrieve_api_key cl params [] = (out, tr0)"
    by (cases "retrieve_api_key cl params []")
  note lists = retrieve_api_key_only_lists [OF ret]
  from run ret obtain me where out: "out = Inr me"
    by (cases out) (auto simp: api_key_process_request_def)
  let ?state = "py_get_default params ''state'' (PStr ''present'')"
  consider (delete) k where "?state = PStr ''absent''" "me = Some k"
    | (create) "?state = PStr ''present''" "me = None"
    | (update) k where "?state = PStr ''present''" "me = Some k"
    | (nothing) "\<not> (?state = PStr ''absent'' \<and> me \<noteq> None)" "?state \<noteq> PStr ''present''"
    by (cases me) auto
  then show ?thesis
  proof cases
    case delete
    with run ret out have "changed r"
      by (auto simp: api_key_process_request_def delete_api_key_def Let_def
          split: option.splits reply.splits exn.splits)
    moreover from delete ret out
    have "api_key_process_request cl params True = (Inr \<lparr>changed = True, obj = None\<rparr>, tr0)"
      by (simp add: api_key_process_request_def delete_api_key_def)
    ultimately show ?thesis using lists by simp
  next
    case create
    with run ret out have "changed r"
      by (auto simp: api_key_process_request_def create_api_key_def Let_def
          split: option.splits reply.splits exn.splits)
    moreover from create ret out
    have "api_key_process_request cl params True = (Inr \<lparr>changed = True, obj = None\<rparr>, tr0)"
      by (simp add: api_key_process_request_def create_api_key_def)
    ultimately show ?thesis using lists by simp
  next
    case update
    show ?thesis
    proof (cases "create_patches params k = []")
      case True
      with update ret out run
      have "api_key_process_request cl params True = (Inr \<lparr>changed = False, obj = Some k\<rparr>, tr0)"
        and "\<not> changed r"
        by (auto simp: api_key_process_request_def update_api_key_noop)
      then show ?thesis using lists by simp
    next
      case False
      with update ret out run have "changed r"
        by (auto simp: api_key_process_request_def update_api_key_def Let_def
            split: option.splits reply.splits exn.splits prod.splits sum.splits)
      moreover from False update ret out
      have "api_key_process_request cl params True = (Inr \<lparr>changed = True, obj = Some k\<rparr>, tr0)"
        by (simp add: api_key_process_request_def update_api_key_check_mode)
      ultimately show ?thesis using lists by simp
    qed
  next
    case nothing
    with ret out run
    have "api_key_process_request cl params True = (Inr \<lparr>changed = False, obj = None\<rparr>, tr0)"
      and "\<not> changed r"
      by (auto simp: api_key_process_request_def)
    then show ?thesis using lists by simp
  qed
qed

lemma model_dry_run_keeps_changed:
  assumes run: "model_process_request cl params False = (Inr r, tr)"
  shows "\<exists>r'. model_process_request cl params True =
           (Inr r', [GetModel (py_get params ''rest_api_id'') (py_get params ''name'')]) \<and>
           changed r' = changed r"
proof -
  obtain out tr0 where f: "find_model cl params [] = (out, tr0)"
    by (cases "find_model cl params []")
  from find_model_trace [of cl params "[]"] f
  have tr0: "tr0 = [GetModel (py_get params ''rest_api_id'') (py_get params ''name'')]" by simp
  from run f obtain model where out: "out = Inr model"
    by (cases out) (auto simp: model_process_request_def)
  show ?thesis
  proof (cases "py_get params ''state'' = PStr ''absent''")
    case True
    with run f out tr0 show ?thesis
      by (cases model)
         (auto simp: model_process_request_def delete_model_def Let_def
            split: reply.splits exn.splits if_splits)
  next
    case False
    show ?thesis
    proof (cases model)
      case None
      with False run f out tr0 show ?thesis
        by (auto simp: model_process_request_def create_model_def Let_def
            split: reply.splits exn.splits)
    next
      case (Some m)
      with False run f out tr0 show ?thesis
        by (auto simp: model_process_request_def update_model_def Let_def
            split: reply.splits exn.splits option.splits if_splits)
    qed
  qed
qed

lemma stage_update_dry_run_keeps_changed:
  assumes run: "stage_process_request cl params False = (Inr r, tr)"
      and present: "py_get_default (scalars params) ''state'' (PStr ''present'') = PStr ''present''"
  shows "\<exists>r'. stage_process_request cl params True =
           (Inr r', [GetStage (py_get (scalars params) ''rest_api_id'') (py_get (scalars params) ''name'')]) \<and>
           changed r' = changed r"
proof -
  obtain out tr0 where f: "find_stage cl params [] = (out, tr0)"
    by (cases "find_stage cl params []")
  from find_stage_trace [of cl params "[]"] f
  have tr0: "tr0 = [GetStage (py_get (scalars params) ''rest_api_id'') (py_get (scalars params) ''name'')]"
    by simp
  from run f obtain stg where out: "out = Inr stg"
    by (cases out) (auto simp: stage_process_request_def)
  note disp = stage_request_present [OF f [unfolded out] present]
  show ?thesis
  proof (cases "build_patch_args stg params")
    case (Inl e)
    with run show ?thesis by (simp add: disp update_stage_def)
  next
    case (Inr a)
    show ?thesis
    proof (cases a)
      case None
      with Inr run tr0 show ?thesis by (auto simp: disp update_stage_noop)
    next
      case (Some args)
      with Inr have b: "build_patch_args stg params = Inr (Some args)" by simp
      from update_stage_issues_call [OF b, of cl tr0] run have "changed r"
        by (auto simp: disp split: sum.splits)
      with tr0 show ?thesis by (simp add: disp update_stage_check_mode [OF b])
    qed
  qed
qed

lemma stage_delete_dry_run:
  "find_stage cl params [] = (Inr (Some s), tr) \<Longrightarrow>
   py_get_default (scalars params) ''state'' (PStr ''present'') = PStr ''absent'' \<Longrightarrow>
   stage_process_request cl params True = (Inr \<lparr>changed = False, obj = None\<rparr>, tr) \<and>
   (\<forall>r tr'. stage_process_request cl params False = (Inr r, tr') \<longrightarrow> changed r)"
  by (auto simp: stage_request_absent_found delete_stage_def Let_def split: reply.splits exn.splits)

text \<open>
  C1. Dry-run idempotence asks that a run with the dry-run flag skips the mutating call
  and reports the changed value of the same run without the flag. The api\_key and model
  requests and the update path of the stage request do so (the three lemmas above). The
  delete path of the stage request does not: for a stage that exists and the state
  absent, the run without the flag deletes the stage and reports changed true, and the
  run with the flag reports changed false.
\<close>

theorem stage_delete_dry_run_reports_unchanged:
  "stage_process_request (stage_found_client dev_stage)
       (stage_request [(''state'', PStr ''absent'')] []) False =
     (Inr \<lparr>changed = True, obj = None\<rparr>,
      [GetStage (PStr ''abc'') (PStr ''dev''), DeleteStage (PStr ''abc'') (PStr ''dev'')]) \<and>
   stage_process_request (stage_found_client dev_stage)
       (stage_request [(''state'', PStr ''absent'')] []) True =
     (Inr \<lparr>changed = False, obj = None\<rparr>, [GetStage (PStr ''abc'') (PStr ''dev'')])"
  by (simp add: stage_process_request_def find_stage_def stage_found_client_def stage_request_def
      delete_stage_def py_get_def py_get_default_def)

section \<open>Lookup errors\<close>

lemma find_stage_outcomes:
  "client_get_stage cl tr (py_get (scalars params) ''rest_api_id'') (py_get (scalars params) ''name'') = Raise e \<Longrightarrow>
   fst (find_stage cl params tr) =
     (case e of
        ClientError response message \<Rightarrow>
          if py_in ''NotFoundException'' response then Inr None
          else Inl (FailJson (''Error while finding stage via boto3: '' @ message))
      | BotoCoreError message \<Rightarrow> Inl (FailJson (''Error while finding stage via boto3: '' @ message)))"
  by (simp add: find_stage_def Let_def split: exn.splits)

lemma find_model_outcomes:
  "client_get_model cl tr (py_get params ''rest_api_id'') (py_get params ''name'') = Raise e \<Longrightarrow>
   fst (find_model cl params tr) =
     (case e of
        ClientError response message \<Rightarrow> Inr None
      | BotoCoreError message \<Rightarrow> Inl (Uncaught (BotoCoreError message)))"
  by (simp add: find_model_def Let_def split: exn.splits)

text \<open>
  C2. A lookup by direct get call is to map a "not found" error response to the not-found
  sentinel and to abort through \<^verbatim>\<open>fail_json\<close> on every other provider or transport
  error. The stage lookup does so (lemma \<open>find_stage_outcomes\<close>). The model lookup does
  not: it maps every \<open>ClientError\<close> to the sentinel, so that an access-denied response
  reads as "no such model" and the request goes on to create one; and a \<open>BotoCoreError\<close>
  leaves it uncaught rather than through \<^verbatim>\<open>fail_json\<close>.
\<close>

theorem model_lookup_hides_errors:
  "\<not> py_in ''NotFoundException''
       ''{Error: {Code: AccessDeniedException, Message: User is not authorized}}'' \<and>
   find_model (model_client_replying (Raise access_denied)) (model_request [(''state'', PStr ''present'')]) [] =
     (Inr None, [GetModel (PStr ''abc'') (PStr ''Model'')]) \<and>
   snd (model_process_request (model_client_replying (Raise access_denied))
          (model_request [(''content_type'', PStr ''application/pdf''), (''schema'', PStr ''{}''),
             (''state'', PStr ''present'')]) False) =
     [GetModel (PStr ''abc'') (PStr ''Model''),
      CreateModel [(''restApiId'', PStr ''abc''), (''name'', PStr ''Model''),
        (''contentType'', PStr ''application/pdf''), (''schema'', PStr ''{}''),
        (''description'', PNone)]] \<and>
   find_model (model_client_replying (Raise (BotoCoreError ''An unspecified error occurred'')))
       (model_request [(''state'', PStr ''present'')]) [] =
     (Inl (Uncaught (BotoCoreError ''An unspecified error occurred'')),
      [GetModel (PStr ''abc'') (PStr ''Model'')])"
  by (simp add: find_model_def model_client_replying_def access_denied_def model_request_def
      model_process_request_def create_model_def create_model_args_def py_get_def Let_def)

section \<open>The resource path tree builder\<close>

lemma deepest_existing_sound:
  "deepest_existing paths segs n = Some (k, node) \<Longrightarrow>
   k \<le> n \<and> paths (path_of (take k segs)) = Some node \<and>
   (\<forall>j. k < j \<and> j \<le> n \<longrightarrow> paths (path_of (take j segs)) = None)"
proof (induction n)
  case 0
  then show ?case by (auto split: option.splits)
next
  case (Suc n)
  show ?case
  proof (cases "paths (path_of (take (Suc n) segs))")
    case None
    with Suc.prems have "deepest_existing paths segs n = Some (k, node)" by simp
    from Suc.IH [OF this] None show ?thesis
      by (auto simp: le_Suc_eq)
  next
    case (Some x)
    with Suc.prems show ?thesis by auto
  qed
qed

lemma deepest_existing_complete:
  "k \<le> n \<Longrightarrow> paths (path_of (take k segs)) = Some node \<Longrightarrow>
   (\<forall>j. k < j \<and> j \<le> n \<longrightarrow> paths (path_of (take j segs)) = None) \<Longrightarrow>
   deepest_existing paths segs n = Some (k, node)"
proof (induction n)
  case 0
  then show ?case by simp
next
  case (Suc n)
  show ?case
  proof (cases "k = Suc n")
    case True
    with Suc.prems show ?thesis by simp
  next
    case False
    with Suc.prems have kn: "k \<le> n" and none: "paths (path_of (take (Suc n) segs)) = None"
      by auto
    from Suc.prems have "\<forall>j. k < j \<and> j \<le> n \<longrightarrow> paths (path_of (take j segs)) = None" by auto
    from Suc.IH [OF kn Suc.prems(2) this] none show ?thesis by simp
  qed
qed

lemma create_chain_spec:
  "create_chain cl rid parent segs last_created tr = (Inr res, tr') \<Longrightarrow>
   length tr' = length tr + length segs \<and> take (length tr) tr' = tr \<and>
   (segs = [] \<longrightarrow> res = last_created) \<and>
   (\<forall>i < length segs. \<exists>p r.
       tr' ! (length tr + i) = CreateResource rid p (segs ! i) \<and>
       client_create_resource cl (take (length tr + i) tr') rid p (segs ! i) = Return r \<and>
       (i = 0 \<longrightarrow> p = parent) \<and>
       (Suc i < length segs \<longrightarrow> (\<exists>s. tr' ! (length tr + Suc i) = CreateResource rid (res_id r) s)) \<and>
       (Suc i = length segs \<longrightarrow> res = Some r))"
proof (induction segs arbitrary: parent last_created tr)
  case Nil
  then show ?case by simp
next
  case (Cons seg segs)
  let ?c = "CreateResource rid parent seg"
  let ?tr1 = "tr @ [?c]"
  from Cons.prems obtain r0 where
    rep: "client_create_resource cl tr rid parent seg = Return r0"
    and rest: "create_chain cl rid (res_id r0) segs (Some r0) ?tr1 = (Inr res, tr')"
    by (cases "client_create_resource cl tr rid parent seg") auto
  note IH = Cons.IH [OF rest]
  from IH have len: "length tr' = length ?tr1 + length segs"
    and tk: "take (length ?tr1) tr' = ?tr1"
    and emp: "segs = [] \<longrightarrow> res = Some r0"
    and all: "\<forall>i < length segs. \<exists>p r.
       tr' ! (length ?tr1 + i) = CreateResource rid p (segs ! i) \<and>
       client_create_resource cl (take (length ?tr1 + i) tr') rid p (segs ! i) = Return r \<and>
       (i = 0 \<longrightarrow> p = res_id r0) \<and>
       (Suc i < length segs \<longrightarrow> (\<exists>s. tr' ! (length ?tr1 + Suc i) = CreateResource rid (res_id r) s)) \<and>
       (Suc i = length segs \<longrightarrow> res = Some r)"
    by blast+
  have "take (length tr) (take (length ?tr1) tr') = take (length tr) ?tr1"
    by (simp only: tk)
  then have tk0: "take (length tr) tr' = tr" by (simp add: min_def)
  have "tr' ! length tr = take (length ?tr1) tr' ! length tr" by simp
  also have "\<dots> = ?c" by (simp only: tk) simp
  finally have at0: "tr' ! length tr = ?c" .
  have step: "\<exists>p r.
       tr' ! (length tr + i) = CreateResource rid p ((seg # segs) ! i) \<and>
       client_create_resource cl (take (length tr + i) tr') rid p ((seg # segs) ! i) = Return r \<and>
       (i = 0 \<longrightarrow> p = parent) \<and>
       (Suc i < length (seg # segs) \<longrightarrow>
          (\<exists>s. tr' ! (length tr + Suc i) = CreateResource rid (res_id r) s)) \<and>
       (Suc i = length (seg # segs) \<longrightarrow> res = Some r)"
    if i: "i < length (seg # segs)" for i
  proof (cases i)
    case 0
    have nxt: "\<exists>s. tr' ! (length tr + Suc 0) = CreateResource rid (res_id r0) s"
      if "Suc 0 < length (seg # segs)"
    proof -
      from that have "0 < length segs" by simp
      with all obtain p r where "tr' ! (length ?tr1 + 0) = CreateResource rid p (segs ! 0)"
        and "p = res_id r0" by blast
      then show ?thesis by auto
    qed
    from emp have lst: "Suc 0 = length (seg # segs) \<longrightarrow> res = Some r0" by simp
    from 0 at0 rep tk0 nxt lst show ?thesis by auto
  next
    case (Suc j)
    with i have j: "j < length segs" by simp
    with all obtain p r where
      a1: "tr' ! (length ?tr1 + j) = CreateResource rid p (segs ! j)"
      and a2: "client_create_resource cl (take (length ?tr1 + j) tr') rid p (segs ! j) = Return r"
      and a3: "Suc j < length segs \<longrightarrow> (\<exists>s. tr' ! (length ?tr1 + Suc j) = CreateResource rid (res_id r) s)"
      and a4: "Suc j = length segs \<longrightarrow> res = Some r"
      by blast
    from a1 a2 a3 a4 Suc show ?thesis by auto
  qed
  from len tk0 step show ?case by auto
qed

lemma create_chain_returns:
  "(\<And>tr p s. \<exists>r. client_create_resource cl tr rid p s = Return r) \<Longrightarrow>
   \<exists>res tr'. create_chain cl rid parent segs last_created tr = (Inr res, tr')"
proof (induction segs arbitrary: parent last_created tr)
  case Nil
  show ?case by simp
next
  case (Cons seg segs)
  from Cons.prems obtain r where r: "client_create_resource cl tr rid parent seg = Return r"
    by blast
  from Cons.IH [OF Cons.prems, of "res_id r" "Some r" "tr @ [CreateResource rid parent seg]"] r
  show ?case by simp
qed

text \<open>
  C8. Path-tree builder, for the hierarchical resource module: let the prefix of \<open>k\<close>
  segments be the longest prefix of the requested path that the existing-path map holds.
  Each of the remaining segments yields exactly one create call, in path order; the first
  call has the id of that deepest existing ancestor as parent and every later call the
  id returned by the call just before it; the object returned is the result of the final
  create, with changed true. When the full path exists already there is no create call
  and the existing leaf is returned with changed false. (The run returns whenever the
  provider accepts every create call.)
\<close>

theorem path_tree_builder:
  assumes segs: "segs = segments name"
      and k: "k \<le> length segs"
      and node: "paths (path_of (take k segs)) = Some node"
      and longest: "\<forall>j. k < j \<and> j \<le> length segs \<longrightarrow> paths (path_of (take j segs)) = None"
  shows
    "(k = length segs \<longrightarrow>
        build_path_tree cl rid paths name check_mode tr =
          (Inr \<lparr>changed = False, obj = Some node\<rparr>, tr)) \<and>
     (k < length segs \<and> \<not> check_mode \<longrightarrow>
        (\<forall>res tr'. build_path_tree cl rid paths name check_mode tr = (Inr res, tr') \<longrightarrow>
           changed res \<and>
           length tr' = length tr + (length segs - k) \<and> take (length tr) tr' = tr \<and>
           (\<forall>i < length segs - k. \<exists>p r.
              tr' ! (length tr + i) = CreateResource rid p (segs ! (k + i)) \<and>
              client_create_resource cl (take (length tr + i) tr') rid p (segs ! (k + i)) = Return r \<and>
              (i = 0 \<longrightarrow> p = res_id node) \<and>
              (Suc i < length segs - k \<longrightarrow>
                 (\<exists>s. tr' ! (length tr + Suc i) = CreateResource rid (res_id r) s)) \<and>
              (Suc i = length segs - k \<longrightarrow> obj res = Some r))) \<and>
        ((\<forall>h p s. \<exists>r. client_create_resource cl h rid p s = Return r) \<longrightarrow>
           (\<exists>res tr'. build_path_tree cl rid paths name check_mode tr = (Inr res, tr'))))"
proof -
  from deepest_existing_complete [OF k node longest]
  have d: "deepest_existing paths (segments name) (length (segments name)) = Some (k, node)"
    by (simp add: segs)
  have full: "build_path_tree cl rid paths name check_mode tr =
      (Inr \<lparr>changed = False, obj = Some node\<rparr>, tr)" if "k = length segs"
    using that by (simp add: build_path_tree_def d segs)
  have run: "build_path_tree cl rid paths name check_mode tr =
      (case create_chain cl rid (res_id node) (drop k segs) None tr of
         (Inl e, tr') \<Rightarrow> (Inl e, tr')
       | (Inr r, tr') \<Rightarrow> (Inr \<lparr>changed = True, obj = r\<rparr>, tr'))"
    if "k < length segs \<and> \<not> check_mode"
    using that by (simp add: build_path_tree_def d segs)
  have part: "changed res \<and>
           length tr' = length tr + (length segs - k) \<and> take (length tr) tr' = tr \<and>
           (\<forall>i < length segs - k. \<exists>p r.
              tr' ! (length tr + i) = CreateResource rid p (segs ! (k + i)) \<and>
              client_create_resource cl (take (length tr + i) tr') rid p (segs ! (k + i)) = Return r \<and>
              (i = 0 \<longrightarrow> p = res_id node) \<and>
              (Suc i < length segs - k \<longrightarrow>
                 (\<exists>s. tr' ! (length tr + Suc i) = CreateResource rid (res_id r) s)) \<and>
              (Suc i = length segs - k \<longrightarrow> obj res = Some r))"
    if c: "k < length segs \<and> \<not> check_mode"
      and b: "build_path_tree cl rid paths name check_mode tr = (Inr res, tr')" for res tr'
  proof -
    from b [unfolded run [OF c]] obtain last where
      ch: "create_chain cl rid (res_id node) (drop k segs) None tr = (Inr last, tr')"
      and res: "res = \<lparr>changed = True, obj = last\<rparr>"
      by (auto split: prod.splits sum.splits)
    from c have idx: "(drop k segs) ! i = segs ! (k + i)" if "i < length segs - k" for i
      using that by simp
    from create_chain_spec [OF ch] idx res show ?thesis
      by (auto simp del: nth_drop)
  qed
  have total: "\<exists>res tr'. build_path_tree cl rid paths name check_mode tr = (Inr res, tr')"
    if c: "k < length segs \<and> \<not> check_mode"
      and ok: "\<forall>h p s. \<exists>r. client_create_resource cl h rid p s = Return r"
  proof -
    from ok have "\<And>h p s. \<exists>r. client_create_resource cl h rid p s = Return r" by blast
    from create_chain_returns [OF this, of "res_id node" "drop k segs" None tr]
    show ?thesis unfolding run [OF c] by auto
  qed
  from full part total show ?thesis by blast
qed

lemma segments_a_b: "segments ''/a/b'' = [''a'', ''b'']"
  by (simp add: segments_def)

lemma segments_res1: "segments ''/res1'' = [''res1'']"
  by (simp add: segments_def)

theorem path_tree_builder_witness:
  "segments ''/a/b'' = [''a'', ''b''] \<and>
   root_only (path_of (take 0 [''a'', ''b''])) = Some \<lparr>res_id = PStr ''root'', res_parent = None\<rparr> \<and>
   root_only (path_of (take 1 [''a'', ''b''])) = None \<and>
   root_only (path_of (take 2 [''a'', ''b''])) = None \<and>
   build_path_tree naming_resource_client (PStr ''mock'') root_only ''/a/b'' False [] =
     (Inr \<lparr>changed = True,
           obj = Some \<lparr>res_id = PStr ''b_id'', res_parent = Some (PStr ''a_id'')\<rparr>\<rparr>,
      [CreateResource (PStr ''mock'') (PStr ''root'') ''a'',
       CreateResource (PStr ''mock'') (PStr ''a_id'') ''b'']) \<and>
   (\<exists>res tr'. build_path_tree naming_resource_client (PStr ''mock'') root_only ''/a/b'' False [] =
       (Inr res, tr')) \<and>
   root_and_res1 (path_of (take 1 [''res1''])) =
     Some \<lparr>res_id = PStr ''abc'', res_parent = Some (PStr ''root'')\<rparr> \<and>
   build_path_tree naming_resource_client (PStr ''mock'') root_and_res1 ''/res1'' False [] =
     (Inr \<lparr>changed = False,
           obj = Some \<lparr>res_id = PStr ''abc'', res_parent = Some (PStr ''root'')\<rparr>\<rparr>, [])"
proof -
  have n0: "root_only (path_of (take 0 [''a'', ''b''])) = Some \<lparr>res_id = PStr ''root'', res_parent = None\<rparr>"
    by (simp add: root_only_def path_of_def)
  have n1: "root_only (path_of (take 1 [''a'', ''b''])) = None"
    by (simp add: root_only_def path_of_def)
  have n2: "root_only (path_of (take 2 [''a'', ''b''])) = None"
    by (simp add: root_only_def path_of_def)
  have longest: "\<forall>j. 0 < j \<and> j \<le> length [''a'', ''b''] \<longrightarrow> root_only (path_of (take j [''a'', ''b''])) = None"
  proof (intro allI impI)
    fix j :: nat assume "0 < j \<and> j \<le> length [''a'', ''b'']"
    then have "j = 1 \<or> j = 2" by auto
    with n1 n2 show "root_only (path_of (take j [''a'', ''b''])) = None" by auto
  qed
  note th = path_tree_builder [OF segments_a_b [symmetric] _ n0 longest,
      of naming_resource_client "PStr ''mock''" False "[]"]
  have ok: "\<forall>h p s. \<exists>r. client_create_resource naming_resource_client h (PStr ''mock'') p s = Return r"
    by (simp add: naming_resource_client_def)
  from th ok
  have ret: "\<exists>res tr'. build_path_tree naming_resource_client (PStr ''mock'') root_only ''/a/b'' False [] =
       (Inr res, tr')"
    by simp
  have run: "build_path_tree naming_resource_client (PStr ''mock'') root_only ''/a/b'' False [] =
     (Inr \<lparr>changed = True,
           obj = Some \<lparr>res_id = PStr ''b_id'', res_parent = Some (PStr ''a_id'')\<rparr>\<rparr>,
      [CreateResource (PStr ''mock'') (PStr ''root'') ''a'',
       CreateResource (PStr ''mock'') (PStr ''a_id'') ''b''])"
    by (simp add: build_path_tree_def segments_a_b root_only_def path_of_def naming_resource_client_def)
  have e1: "root_and_res1 (path_of (take 1 [''res1''])) =
     Some \<lparr>res_id = PStr ''abc'', res_parent = Some (PStr ''root'')\<rparr>"
    by (simp add: root_and_res1_def path_of_def)
  have e2: "\<forall>j. 1 < j \<and> j \<le> length [''res1''] \<longrightarrow> root_and_res1 (path_of (take j [''res1''])) = None"
    by auto
  from path_tree_builder [OF segments_res1 [symmetric] _ e1 e2,
      of naming_resource_client "PStr ''mock''" False "[]"]
  have ex: "build_path_tree naming_resource_client (PStr ''mock'') root_and_res1 ''/res1'' False [] =
     (Inr \<lparr>changed = False,
           obj = Some \<lparr>res_id = PStr ''abc'', res_parent = Some (PStr ''root'')\<rparr>\<rparr>, [])"
    by simp
  from segments_a_b n0 n1 n2 run ret e1 ex show ?thesis by (intro conjI)
qed

end
